theory Spec2Isabelle
  imports Complex_Main "HOL-Library.Multiset"
begin

section \<open>Numbers\<close>

text \<open>
  Python floats are modelled as exact reals: no rounding error, no NaN, no infinity.
  \<open>py_int\<close> is \<^verbatim>\<open>int(x)\<close> on a float (truncation towards zero) and \<open>py_round\<close> is
  \<^verbatim>\<open>round(x, ndigits)\<close> (round to nearest, ties to even) on the exact value.
\<close>

definition py_int :: "real \<Rightarrow> int" where
  "py_int x = (if 0 \<le> x then \<lfloor>x\<rfloor> else \<lceil>x\<rceil>)"

definition round_half_even :: "real \<Rightarrow> int" where
  "round_half_even y =
     (let f = \<lfloor>y\<rfloor>; r = y - of_int f
      in if r < 1 / 2 then f
         else if 1 / 2 < r then f + 1
         else if even f then f else f + 1)"

definition py_round :: "real \<Rightarrow> nat \<Rightarrow> real" where
  "py_round x ndigits = of_int (round_half_even (x * 10 ^ ndigits)) / 10 ^ ndigits"

definition radians :: "real \<Rightarrow> real" where
  "radians deg = deg * pi / 180"

section \<open>Event counts of the two generators\<close>

text \<open>
  \<^verbatim>\<open>data_generator_all_systematics.py\<close>, lines 91 to 95:
  \<^verbatim>\<open>self.ps = round(1 - self.pb, 5)\<close>, then both counts by \<^verbatim>\<open>int(total * p)\<close>.
  \<^verbatim>\<open>data_generator_mix.py\<close>, lines 84 to 88: \<^verbatim>\<open>self.ps = 1 - self.pb\<close>.
\<close>

definition ps_all :: "real \<Rightarrow> real" where
  "ps_all pb = py_round (1 - pb) 5"

definition ps_mix :: "real \<Rightarrow> real" where
  "ps_mix pb = 1 - pb"

definition signal_events_all :: "int \<Rightarrow> real \<Rightarrow> int" where
  "signal_events_all n_events pb = py_int (of_int n_events * ps_all pb)"

definition signal_events_mix :: "int \<Rightarrow> real \<Rightarrow> int" where
  "signal_events_mix n_events pb = py_int (of_int n_events * ps_mix pb)"

definition background_events :: "int \<Rightarrow> real \<Rightarrow> int" where
  "background_events n_events pb = py_int (of_int n_events * pb)"

section \<open>Weights of the train split and of the test folds\<close>

text \<open>
  \<^verbatim>\<open>datagen_temp.py\<close> keeps labels and weights in two index-aligned series. A boolean
  mask \<^verbatim>\<open>weights[label==l]\<close> selects the weights whose label is \<open>l\<close>.
\<close>

definition weight_sum :: "int \<Rightarrow> int list \<Rightarrow> real list \<Rightarrow> real" where
  "weight_sum l label weights = sum_list (map snd (filter (\<lambda>r. fst r = l) (zip label weights)))"

definition scale_weights :: "int \<Rightarrow> real \<Rightarrow> int list \<Rightarrow> real list \<Rightarrow> real list" where
  "scale_weights l c label weights =
     map (\<lambda>r. if fst r = l then snd r * c else snd r) (zip label weights)"

text \<open>
  Lines 88 to 95 (and again 126 to 129, 145 to 151): both sums are taken first, then the
  signal weights and the background weights are rescaled in place, one statement each.
\<close>

definition reweight :: "real \<Rightarrow> real \<Rightarrow> int list \<Rightarrow> real list \<Rightarrow> real list" where
  "reweight total_signal_weight total_background_weight label weights =
     (let subset_signal_weight = weight_sum 1 label weights;
          subset_background_weight = weight_sum 0 label weights;
          weights1 = scale_weights 1 (total_signal_weight / subset_signal_weight) label weights
      in scale_weights 0 (total_background_weight / subset_background_weight) label weights1)"

text \<open>
  Lines 119 to 121: \<^verbatim>\<open>[xs[i:i+k] for i in range(0, len(xs), k)]\<close> with \<^verbatim>\<open>k = len(xs)//10\<close>.
  \<^verbatim>\<open>range\<close> raises ValueError when the step is 0, that is when the test set has fewer
  than 10 rows.
\<close>

datatype error = Exit | KeyError string | ValueError | IndexError | TypeError

definition slices :: "nat \<Rightarrow> 'a list \<Rightarrow> 'a list list" where
  "slices k xs = map (\<lambda>j. take k (drop (j * k) xs)) [0..<(length xs + k - 1) div k]"

definition tenths :: "'a list \<Rightarrow> error + 'a list list" where
  "tenths xs = (let k = length xs div 10 in if k = 0 then Inl ValueError else Inr (slices k xs))"

text \<open>
  The whole of \<^verbatim>\<open>DataGenerator()\<close> in \<^verbatim>\<open>datagen_temp.py\<close> as far as weights go. The random
  \<^verbatim>\<open>train_test_split\<close> is an input: the caller passes the labels and weights of the two
  parts. \<open>mu\<close> is the \<^verbatim>\<open>ground_truth_mu\<close> read from the settings file of test fold \<open>i\<close>.
  \<open>test_weights_reweighted\<close> is the state of each fold after line 151, where lines 172
  and 173 read its sums; \<open>test_weights_written\<close> is the fold after line 176.
\<close>

record weight_files =
  train_weights_written :: "real list"
  mu_calc_weights_written :: "real list"
  test_weights_reweighted :: "real list list"
  test_weights_written :: "real list list"

definition DataGenerator_HEP ::
  "int list \<Rightarrow> real list \<Rightarrow> int list \<Rightarrow> real list \<Rightarrow> int list \<Rightarrow> real list \<Rightarrow> (nat \<Rightarrow> real)
    \<Rightarrow> error + weight_files" where
  "DataGenerator_HEP label weights train_label train_weights test_label test_weights mu =
     (let total_signal_weight = weight_sum 1 label weights;
          total_background_weight = weight_sum 0 label weights;
          train_weights' = reweight total_signal_weight total_background_weight train_label train_weights
      in case tenths test_weights of
           Inl e \<Rightarrow> Inl e
         | Inr test_weights_parts \<Rightarrow>
             (case tenths test_label of
                Inl e \<Rightarrow> Inl e
              | Inr test_label_parts \<Rightarrow>
                  (case (test_weights_parts, test_label_parts) of
                     (mu_calc_weights # rest_weights, mu_calc_label # rest_label) \<Rightarrow>
                       let folds = zip rest_label rest_weights;
                           reweighted =
                             map (\<lambda>f. reweight total_signal_weight total_background_weight (fst f) (snd f)) folds
                       in Inr \<lparr>train_weights_written = train_weights',
                               mu_calc_weights_written =
                                 reweight total_signal_weight total_background_weight mu_calc_label mu_calc_weights,
                               test_weights_reweighted = reweighted,
                               test_weights_written =
                                 map (\<lambda>(i, test_label, w). scale_weights 1 (mu i) test_label w)
                                   (zip [0..<length folds] (zip rest_label reweighted))\<rparr>
                   | _ \<Rightarrow> Inl IndexError)))"

section \<open>Constants\<close>

text \<open>\<^verbatim>\<open>constants.py\<close>.\<close>

definition DISTRIBUTION_GAUSSIAN :: string where
  "DISTRIBUTION_GAUSSIAN = ''Gaussian''"

definition DISTRIBUTION_GAMMA :: string where
  "DISTRIBUTION_GAMMA = ''Gamma''"

definition SYSTEMATIC_TRANSLATION :: string where
  "SYSTEMATIC_TRANSLATION = ''Translation''"

definition SYSTEMATIC_SCALING :: string where
  "SYSTEMATIC_SCALING = ''Scaling''"

definition SYSTEMATIC_BOX :: string where
  "SYSTEMATIC_BOX = ''Box''"

definition SYSTEMATIC_ROTATION :: string where
  "SYSTEMATIC_ROTATION = ''Rotation''"

definition SIGNAL_LABEL :: int where
  "SIGNAL_LABEL = 1"

definition BACKGROUND_LABEL :: int where
  "BACKGROUND_LABEL = 0"

section \<open>Settings, distributions and systematics\<close>

text \<open>
  The settings are a Python dict. The three keys every construction reads first are
  fields; every other key is an option, \<open>None\<close> when the dict has no such key. Reading
  a missing key with \<^verbatim>\<open>d[key]\<close> raises KeyError (\<open>req\<close>); \<^verbatim>\<open>d.get(key, default)\<close> does
  not. One record holds the keys of both generators. Every descriptor has a \<^verbatim>\<open>name\<close>.
\<close>

record distribution_settings =
  d_name :: string
  d_mu :: "real list option"
  d_sigma :: "real list option"
  d_k :: "real option"
  d_theta :: "real option"

record systematic_settings =
  s_name :: string
  s_z_magnitude :: "real option"
  s_alpha :: "real option"
  s_scaling_factor :: "real option"
  s_box_l :: "real option"
  s_rotation_degree :: "real option"

record settings =
  cfg_problem_dimension :: nat
  cfg_total_number_of_events :: int
  cfg_p_b :: real
  cfg_generator :: "string option"
  cfg_angle_rotation :: "real option"
  cfg_background_distribution :: "distribution_settings option"
  cfg_signal_from_background :: "bool option"
  cfg_theta :: "real option"
  cfg_L :: "real option"
  cfg_signal_sigma_scale :: "real option"
  cfg_signal_distribution :: "distribution_settings option"
  cfg_systematics :: "systematic_settings list option"
  cfg_apply_copula :: "bool option"
  cfg_alpha :: "real option"
  cfg_beta :: "real option"
  cfg_background_mu :: "real list option"
  cfg_background_sigma :: "real list option"
  cfg_background_angle_rotation :: "real option"
  cfg_signal_angle_rotation :: "real option"

definition req :: "string \<Rightarrow> 'a option \<Rightarrow> error + 'a" where
  "req key v = (case v of None \<Rightarrow> Inl (KeyError key) | Some x \<Rightarrow> Inr x)"

definition bind_result :: "error + 'a \<Rightarrow> ('a \<Rightarrow> error + 'b) \<Rightarrow> error + 'b" where
  "bind_result m f = (case m of Inl e \<Rightarrow> Inl e | Inr x \<Rightarrow> f x)"

text \<open>
  The classes of \<^verbatim>\<open>distributions.py\<close> and \<^verbatim>\<open>systematics.py\<close> are not part of the sources.
  An object of one of them is the parameter dict its constructor is called with.
\<close>

record gaussian =
  g_mu :: "real list"
  g_sigma :: "real list"
  g_generator :: string
  g_angle_rotation :: "real option"

datatype distribution = Gaussian gaussian | Gamma real real

record translation =
  t_name :: string
  t_allowed_dimension :: int
  translation_vector :: "real list"

record scaling =
  sc_name :: string
  sc_allowed_dimension :: int
  scaling_vector :: "real list"

record box =
  b_name :: string
  box_center :: "real list"
  box_length :: real

record rotation =
  r_name :: string
  rotation_degree :: real

datatype log_entry = Success string | Error string | Warning string

type_synonym points = "real list list"

type_synonym frame = "(real list \<times> int) list"

record data_generator =
  settings_box_center :: "real list"
  signal_distribution :: "distribution option"
  background_distribution :: "distribution option"
  systematic_translation :: "translation option"
  systematic_scaling :: "scaling option"
  systematic_box :: "box option"
  systematic_rotation :: "rotation option"
  systematics_loaded :: bool
  generated_data :: "points option"
  generated_labels :: "int list option"
  biased_data :: "points option"
  biased_labels :: "int list option"
  problem_dimension :: nat
  ps :: real
  pb :: real
  total_number_of_events :: int
  number_of_background_events :: int
  number_of_signal_events :: int
  apply_copula :: bool
  alpha :: "real option"
  beta :: "real option"
  logger :: "log_entry list"

text \<open>
  numpy: \<^verbatim>\<open>a + b\<close> on two vectors adds elementwise; a vector of length 1 is broadcast, any
  other difference of lengths raises ValueError.
\<close>

definition np_add :: "real list \<Rightarrow> real list \<Rightarrow> error + real list" where
  "np_add a b =
     (if length a = length b then Inr (map2 (+) a b)
      else if length a = 1 then Inr (map (\<lambda>y. hd a + y) b)
      else if length b = 1 then Inr (map (\<lambda>x. x + hd b) a)
      else Inl ValueError)"

section \<open>Loading the systematics\<close>

text \<open>
  Line 181 of \<^verbatim>\<open>data_generator_all_systematics.py\<close>:
  \<^verbatim>\<open>z = np.multiply([np.cos(np.radians(alpha)), np.sin(np.radians(alpha))], z_magnitude)\<close>.
  Line 139 of \<^verbatim>\<open>data_generator_mix.py\<close>:
  \<^verbatim>\<open>z = np.multiply([round(cos(radians(alpha)), 2), round(sin(radians(alpha)), 2)], z_magnitude)\<close>.
\<close>

definition z_all :: "real \<Rightarrow> real \<Rightarrow> real list" where
  "z_all z_magnitude a = map (\<lambda>c. c * z_magnitude) [cos (radians a), sin (radians a)]"

definition z_mix :: "real \<Rightarrow> real \<Rightarrow> real list" where
  "z_mix z_magnitude a =
     map (\<lambda>c. c * z_magnitude) [py_round (cos (radians a)) 2, py_round (sin (radians a)) 2]"

text \<open>
  The body of the loop over the descriptors, the same in both files but for the vector
  \<open>z\<close> and the centre of the box. The four \<^verbatim>\<open>if\<close> statements run one after the other.
\<close>

definition load_translation ::
  "(real \<Rightarrow> real \<Rightarrow> real list) \<Rightarrow> systematic_settings \<Rightarrow> data_generator \<Rightarrow> error + data_generator" where
  "load_translation z systematic self =
     (if s_name systematic = SYSTEMATIC_TRANSLATION then
        bind_result (req ''z_magnitude'' (s_z_magnitude systematic)) (\<lambda>z_magnitude.
        bind_result (req ''alpha'' (s_alpha systematic)) (\<lambda>a.
        Inr (self\<lparr>systematic_translation :=
                    Some \<lparr>t_name = SYSTEMATIC_TRANSLATION, t_allowed_dimension = - 1,
                          translation_vector = z z_magnitude a\<rparr>\<rparr>)))
      else Inr self)"

definition load_scaling :: "systematic_settings \<Rightarrow> data_generator \<Rightarrow> error + data_generator" where
  "load_scaling systematic self =
     (if s_name systematic = SYSTEMATIC_SCALING then
        bind_result (req ''scaling_factor'' (s_scaling_factor systematic)) (\<lambda>scaling_factor.
        if scaling_factor > 1 then
          Inr (self\<lparr>systematic_scaling :=
                      Some \<lparr>sc_name = SYSTEMATIC_SCALING, sc_allowed_dimension = - 1,
                            scaling_vector = [scaling_factor, scaling_factor]\<rparr>\<rparr>)
        else Inr self)
      else Inr self)"

definition load_box :: "real list \<Rightarrow> systematic_settings \<Rightarrow> data_generator \<Rightarrow> error + data_generator" where
  "load_box center systematic self =
     (if s_name systematic = SYSTEMATIC_BOX then
        bind_result (req ''box_l'' (s_box_l systematic)) (\<lambda>box_length'.
        if box_length' > 1 then
          Inr (self\<lparr>systematic_box :=
                      Some \<lparr>b_name = SYSTEMATIC_BOX, box_center = center, box_length = box_length'\<rparr>\<rparr>)
        else Inr self)
      else Inr self)"

definition load_rotation :: "systematic_settings \<Rightarrow> data_generator \<Rightarrow> error + data_generator" where
  "load_rotation systematic self =
     (if s_name systematic = SYSTEMATIC_ROTATION then
        bind_result (req ''rotation_degree'' (s_rotation_degree systematic)) (\<lambda>rotation_degree'.
        if rotation_degree' \<noteq> 0 then
          Inr (self\<lparr>systematic_rotation :=
                      Some \<lparr>r_name = SYSTEMATIC_BOX, rotation_degree = rotation_degree'\<rparr>\<rparr>)
        else Inr self)
      else Inr self)"

definition load_systematic ::
  "(real \<Rightarrow> real \<Rightarrow> real list) \<Rightarrow> real list \<Rightarrow> systematic_settings \<Rightarrow> data_generator
    \<Rightarrow> error + data_generator" where
  "load_systematic z center systematic self =
     bind_result (load_translation z systematic self) (\<lambda>self1.
     bind_result (load_scaling systematic self1) (\<lambda>self2.
     bind_result (load_box center systematic self2) (\<lambda>self3.
     load_rotation systematic self3)))"

fun load_systematics ::
  "(real \<Rightarrow> real \<Rightarrow> real list) \<Rightarrow> real list \<Rightarrow> systematic_settings list \<Rightarrow> data_generator
    \<Rightarrow> error + data_generator" where
  "load_systematics z center [] self = Inr self"
| "load_systematics z center (systematic # rest) self =
     bind_result (load_systematic z center systematic self) (load_systematics z center rest)"

section \<open>Construction\<close>

text \<open>
  \<^verbatim>\<open>DataGenerator.__init__\<close> of \<^verbatim>\<open>data_generator_all_systematics.py\<close>. \<^verbatim>\<open>exit()\<close> is the error
  \<open>Exit\<close>. Lines 100 to 115: the background distribution, \<open>None\<close> when the name is
  neither Gaussian nor Gamma.
\<close>

definition load_background_all ::
  "settings \<Rightarrow> distribution_settings \<Rightarrow> error + distribution option" where
  "load_background_all s background_dist =
     (if d_name background_dist = DISTRIBUTION_GAUSSIAN then
        bind_result (req ''mu'' (d_mu background_dist)) (\<lambda>mu'.
        bind_result (req ''sigma'' (d_sigma background_dist)) (\<lambda>sigma'.
        bind_result (req ''generator'' (cfg_generator s)) (\<lambda>generator'.
        Inr (Some (Gaussian \<lparr>g_mu = mu', g_sigma = sigma', g_generator = generator',
                              g_angle_rotation =
                                Some (case cfg_angle_rotation s of None \<Rightarrow> 0 | Some a \<Rightarrow> a)\<rparr>)))))
      else if d_name background_dist = DISTRIBUTION_GAMMA then
        bind_result (req ''k'' (d_k background_dist)) (\<lambda>k'.
        bind_result (req ''_theta_'' (d_theta background_dist)) (\<lambda>theta'.
        Inr (Some (Gamma k' theta'))))
      else Inr None)"

text \<open>
  Lines 132 to 158: the centre of the box and the signal distribution, \<open>None\<close> when
  the signal is not derived from a Gaussian background and its name is not Gaussian.
\<close>

definition load_signal_all ::
  "settings \<Rightarrow> distribution_settings \<Rightarrow> error + real list \<times> distribution option" where
  "load_signal_all s background_dist =
     bind_result (req ''signal_from_background'' (cfg_signal_from_background s)) (\<lambda>from_background.
     if from_background \<and> d_name background_dist = DISTRIBUTION_GAUSSIAN then
       bind_result (req ''theta'' (cfg_theta s)) (\<lambda>theta'.
       bind_result (req ''L'' (cfg_L s)) (\<lambda>L'.
       bind_result (req ''signal_sigma_scale'' (cfg_signal_sigma_scale s)) (\<lambda>signal_sigma_scale.
       bind_result (req ''sigma'' (d_sigma background_dist)) (\<lambda>sigma'.
       bind_result (req ''mu'' (d_mu background_dist)) (\<lambda>mu'.
       bind_result (np_add mu' [L' * cos (radians theta'), L' * sin (radians theta')]) (\<lambda>signal_mu.
       bind_result (req ''generator'' (cfg_generator s)) (\<lambda>generator'.
       Inr (signal_mu,
            Some (Gaussian \<lparr>g_mu = signal_mu,
                            g_sigma = map (\<lambda>x. x * signal_sigma_scale) sigma',
                            g_generator = generator',
                            g_angle_rotation =
                              Some (- (case cfg_angle_rotation s of None \<Rightarrow> 0 | Some a \<Rightarrow> a))\<rparr>)))))))))
     else
       bind_result (req ''signal_distribution'' (cfg_signal_distribution s)) (\<lambda>signal_dist.
       if d_name signal_dist = DISTRIBUTION_GAUSSIAN then
         bind_result (req ''mu'' (d_mu signal_dist)) (\<lambda>mu'.
         bind_result (req ''sigma'' (d_sigma signal_dist)) (\<lambda>sigma'.
         bind_result (req ''generator'' (cfg_generator s)) (\<lambda>generator'.
         Inr (mu',
              Some (Gaussian \<lparr>g_mu = mu', g_sigma = sigma', g_generator = generator',
                              g_angle_rotation =
                                Some (- (case cfg_angle_rotation s of None \<Rightarrow> 0 | Some a \<Rightarrow> a))\<rparr>)))))
       else Inr ([0, 0], None)))"

definition init_all :: "settings \<Rightarrow> error + data_generator" where
  "init_all s =
     bind_result (req ''background_distribution'' (cfg_background_distribution s)) (\<lambda>background_dist.
     bind_result (load_background_all s background_dist) (\<lambda>background.
     if background = None then Inl Exit
     else
       bind_result (load_signal_all s background_dist) (\<lambda>(center, signal).
       bind_result (req ''systematics'' (cfg_systematics s)) (\<lambda>systematics.
       bind_result
         (load_systematics z_all center systematics
            \<lparr>settings_box_center = center,
             signal_distribution = signal,
             background_distribution = background,
             systematic_translation = None,
             systematic_scaling = None,
             systematic_box = None,
             systematic_rotation = None,
             systematics_loaded = False,
             generated_data = None,
             generated_labels = None,
             biased_data = None,
             biased_labels = None,
             problem_dimension = cfg_problem_dimension s,
             ps = ps_all (cfg_p_b s),
             pb = cfg_p_b s,
             total_number_of_events = cfg_total_number_of_events s,
             number_of_background_events = background_events (cfg_total_number_of_events s) (cfg_p_b s),
             number_of_signal_events = signal_events_all (cfg_total_number_of_events s) (cfg_p_b s),
             apply_copula = (case cfg_apply_copula s of None \<Rightarrow> False | Some b \<Rightarrow> b),
             alpha = cfg_alpha s,
             beta = cfg_beta s,
             logger =
               [Success ''Settings Loaded!'', Success ''Background Distributions Loaded!'',
                if signal = None then Error ''Signal Distributions should be Gaussian only!''
                else Success ''Signal Distributions Loaded!'']\<rparr>)
         (\<lambda>self.
            Inr (self\<lparr>systematics_loaded := True,
                      logger := logger self @ [Success ''Systematics Loaded!'']\<rparr>))))))"

text \<open>
  \<^verbatim>\<open>DataGenerator.__init__\<close> of \<^verbatim>\<open>data_generator_mix.py\<close>: both distributions are Gaussian,
  the signal is always derived from the background, and the box is centred at the signal
  mean.
\<close>

definition init_mix :: "settings \<Rightarrow> error + data_generator" where
  "init_mix s =
     bind_result (req ''background_mu'' (cfg_background_mu s)) (\<lambda>background_mu.
     bind_result (req ''background_sigma'' (cfg_background_sigma s)) (\<lambda>background_sigma.
     bind_result (req ''generator'' (cfg_generator s)) (\<lambda>generator'.
     bind_result (req ''theta'' (cfg_theta s)) (\<lambda>theta'.
     bind_result (req ''L'' (cfg_L s)) (\<lambda>L'.
     bind_result (req ''signal_sigma_scale'' (cfg_signal_sigma_scale s)) (\<lambda>signal_sigma_scale.
     bind_result (np_add background_mu [L' * cos (radians theta'), L' * sin (radians theta')]) (\<lambda>signal_mu.
     bind_result (req ''systematics'' (cfg_systematics s)) (\<lambda>systematics.
     bind_result
       (load_systematics z_mix signal_mu systematics
          \<lparr>settings_box_center = [],
           signal_distribution =
             Some (Gaussian \<lparr>g_mu = signal_mu,
                             g_sigma = map (\<lambda>x. x * signal_sigma_scale) background_sigma,
                             g_generator = generator',
                             g_angle_rotation = cfg_signal_angle_rotation s\<rparr>),
           background_distribution =
             Some (Gaussian \<lparr>g_mu = background_mu, g_sigma = background_sigma,
                             g_generator = generator',
                             g_angle_rotation = cfg_background_angle_rotation s\<rparr>),
           systematic_translation = None,
           systematic_scaling = None,
           systematic_box = None,
           systematic_rotation = None,
           systematics_loaded = False,
           generated_data = None,
           generated_labels = None,
           biased_data = None,
           biased_labels = None,
           problem_dimension = cfg_problem_dimension s,
           ps = ps_mix (cfg_p_b s),
           pb = cfg_p_b s,
           total_number_of_events = cfg_total_number_of_events s,
           number_of_background_events = background_events (cfg_total_number_of_events s) (cfg_p_b s),
           number_of_signal_events = signal_events_mix (cfg_total_number_of_events s) (cfg_p_b s),
           apply_copula = False,
           alpha = None,
           beta = None,
           logger =
             [Success ''Settings Loaded!'', Success ''Background Distributions Loaded!'',
              Success ''Signal Distributions Loaded!'']\<rparr>)
       (\<lambda>self.
          Inr (self\<lparr>systematics_loaded := True,
                    logger := logger self @ [Success ''Systematics Loaded!'']\<rparr>))))))))))"

section \<open>Generating the data\<close>

text \<open>
  What \<^verbatim>\<open>generate_data\<close> calls but the sources do not hold is a parameter: the random
  sampler \<^verbatim>\<open>generate_points\<close> of a distribution (it reads and advances the state \<open>'g\<close> of
  the random number generator), scipy's \<^verbatim>\<open>norm.cdf\<close> and \<^verbatim>\<open>gamma.ppf\<close>, the
  \<^verbatim>\<open>apply_systematics\<close> methods of the four systematics, and the index permutation that
  \<^verbatim>\<open>sklearn.utils.shuffle\<close> draws from a seed and a number of rows.
\<close>

record 'g env =
  generate_points :: "distribution \<Rightarrow> int \<Rightarrow> nat \<Rightarrow> 'g \<Rightarrow> points \<times> 'g"
  norm_cdf :: "real \<Rightarrow> real"
  gamma_ppf :: "real \<Rightarrow> real \<Rightarrow> real \<Rightarrow> real"
  rotation_apply :: "rotation \<Rightarrow> nat \<Rightarrow> points \<Rightarrow> points"
  translation_apply :: "translation \<Rightarrow> nat \<Rightarrow> points \<Rightarrow> points"
  scaling_apply :: "scaling \<Rightarrow> nat \<Rightarrow> points \<Rightarrow> points"
  box_apply :: "box \<Rightarrow> frame \<Rightarrow> frame \<Rightarrow> frame \<times> frame"
  shuffle_indices :: "nat \<Rightarrow> nat \<Rightarrow> nat list"

text \<open>
  \<^verbatim>\<open>shuffle(x, random_state=seed)\<close> seeds a fresh generator, permutes \<^verbatim>\<open>arange(len(x))\<close>
  and takes the rows of \<open>x\<close> at these positions.
\<close>

definition shuffle :: "'g env \<Rightarrow> nat \<Rightarrow> 'a list \<Rightarrow> 'a list" where
  "shuffle env random_state x = map (\<lambda>i. x ! i) (shuffle_indices env random_state (length x))"

text \<open>Python's truth value of \<^verbatim>\<open>self.alpha\<close>: false for \<^verbatim>\<open>None\<close> and for zero.\<close>

definition truthy :: "real option \<Rightarrow> bool" where
  "truthy v = (case v of None \<Rightarrow> False | Some x \<Rightarrow> x \<noteq> 0)"

text \<open>
  Lines 264 to 274 of \<^verbatim>\<open>data_generator_all_systematics.py\<close>. The functions of scipy work
  on every coordinate of every point.
\<close>

definition copula :: "'g env \<Rightarrow> data_generator \<Rightarrow> points \<times> points \<times> log_entry list
    \<Rightarrow> points \<times> points \<times> log_entry list" where
  "copula env self st =
     (case st of (background_data, biased_background_data, logs) \<Rightarrow>
        if apply_copula self then
          if truthy (alpha self) \<and> truthy (beta self) then
            (map (map (\<lambda>x. gamma_ppf env (norm_cdf env x) (the (alpha self)) (the (beta self))))
               background_data,
             map (map (\<lambda>x. gamma_ppf env (norm_cdf env x) (the (alpha self)) (the (beta self))))
               biased_background_data,
             logs)
          else
            (background_data, biased_background_data,
             logs @ [Warning ''Parameters of Gamma Distribution (alpha, beta) are not valid''])
        else st)"

text \<open>Lines 287 to 303 (223 to 239 of \<^verbatim>\<open>data_generator_mix.py\<close>), one block each.\<close>

definition apply_rotation :: "'g env \<Rightarrow> data_generator \<Rightarrow> points \<times> points \<times> log_entry list
    \<Rightarrow> points \<times> points \<times> log_entry list" where
  "apply_rotation env self st =
     (case systematic_rotation self of
        None \<Rightarrow> st
      | Some r \<Rightarrow>
          (case st of (biased_signal_data, biased_background_data, logs) \<Rightarrow>
             (rotation_apply env r (problem_dimension self) biased_signal_data,
              rotation_apply env r (problem_dimension self) biased_background_data,
              logs @ [Success ''Rotation Systematics Applied!''])))"

definition apply_translation :: "'g env \<Rightarrow> data_generator \<Rightarrow> points \<times> points \<times> log_entry list
    \<Rightarrow> points \<times> points \<times> log_entry list" where
  "apply_translation env self st =
     (case systematic_translation self of
        None \<Rightarrow> st
      | Some t \<Rightarrow>
          (case st of (biased_signal_data, biased_background_data, logs) \<Rightarrow>
             (translation_apply env t (problem_dimension self) biased_signal_data,
              translation_apply env t (problem_dimension self) biased_background_data,
              logs @ [Success ''Translation Systematics Applied!''])))"

definition apply_scaling :: "'g env \<Rightarrow> data_generator \<Rightarrow> points \<times> points \<times> log_entry list
    \<Rightarrow> points \<times> points \<times> log_entry list" where
  "apply_scaling env self st =
     (case systematic_scaling self of
        None \<Rightarrow> st
      | Some sc \<Rightarrow>
          (case st of (biased_signal_data, biased_background_data, logs) \<Rightarrow>
             (scaling_apply env sc (problem_dimension self) biased_signal_data,
              scaling_apply env sc (problem_dimension self) biased_background_data,
              logs @ [Success ''Scaling Systematics Applied!''])))"

text \<open>
  Lines 312 to 334: the label column is as long as the original points, and
  \<^verbatim>\<open>np.hstack\<close> raises ValueError when the biased points have another number of rows;
  \<^verbatim>\<open>pd.DataFrame\<close> raises ValueError when a row has not \<^verbatim>\<open>problem_dimension\<close> coordinates.
  A row of a frame is its coordinates and its label \<open>y\<close>.
\<close>

definition stack :: "nat \<Rightarrow> int \<Rightarrow> points \<Rightarrow> points \<Rightarrow> error + frame \<times> frame" where
  "stack dimension label' data biased =
     (let labels = replicate (length data) label'
      in if length biased \<noteq> length labels then Inl ValueError
         else if \<not> list_all (\<lambda>p. length p = dimension) (data @ biased) then Inl ValueError
         else Inr (zip data labels, zip biased labels))"

text \<open>Lines 348 to 350.\<close>

definition apply_box :: "'g env \<Rightarrow> data_generator \<Rightarrow> frame \<times> frame \<times> log_entry list
    \<Rightarrow> frame \<times> frame \<times> log_entry list" where
  "apply_box env self st =
     (case systematic_box self of
        None \<Rightarrow> st
      | Some b \<Rightarrow>
          (case st of (generated_dataframe, biased_dataframe, logs) \<Rightarrow>
             (case box_apply env b generated_dataframe biased_dataframe of
                (generated_dataframe', biased_dataframe') \<Rightarrow>
                  (generated_dataframe', biased_dataframe', logs @ [Success ''Box Systematics Applied!'']))))"

text \<open>
  Lines 287 to 350 (223 to 283 of \<^verbatim>\<open>data_generator_mix.py\<close>): from the four point sets to
  the two frames. The means that line 280 and the like write into the settings are left
  out.
\<close>

definition frames :: "'g env \<Rightarrow> data_generator \<Rightarrow> points \<Rightarrow> points \<Rightarrow> points \<Rightarrow> points
    \<Rightarrow> log_entry list \<Rightarrow> error + frame \<times> frame \<times> log_entry list" where
  "frames env self signal_data background_data biased_signal_data0 biased_background_data0 logs0 =
     (case apply_scaling env self (apply_translation env self (apply_rotation env self
             (biased_signal_data0, biased_background_data0, logs0))) of
        (biased_signal_data, biased_background_data, logs1) \<Rightarrow>
     bind_result (stack (problem_dimension self) SIGNAL_LABEL signal_data biased_signal_data)
       (\<lambda>(signal_df, signal_df_biased).
     bind_result (stack (problem_dimension self) BACKGROUND_LABEL background_data biased_background_data)
       (\<lambda>(background_df, background_df_biased).
     Inr (apply_box env self
            (signal_df @ background_df, signal_df_biased @ background_df_biased, logs1)))))"

text \<open>
  Lines 356 to 367 (289 to 300): the data and the labels of each frame, each shuffled by
  a call of its own with \<^verbatim>\<open>random_state=33\<close>.
\<close>

definition finish :: "'g env \<Rightarrow> data_generator \<Rightarrow> frame \<times> frame \<times> log_entry list \<Rightarrow> data_generator" where
  "finish env self st =
     (case st of (generated_dataframe, biased_dataframe, logs2) \<Rightarrow>
        self\<lparr>generated_data := Some (shuffle env 33 (map fst generated_dataframe)),
             generated_labels := Some (shuffle env 33 (map snd generated_dataframe)),
             biased_data := Some (shuffle env 33 (map fst biased_dataframe)),
             biased_labels := Some (shuffle env 33 (map snd biased_dataframe)),
             logger := logs2\<rparr>)"

text \<open>Lines 227 to 239: the three checks, each followed by \<^verbatim>\<open>exit()\<close>.\<close>

definition check_loaded :: "data_generator \<Rightarrow> error + distribution \<times> distribution" where
  "check_loaded self =
     (case signal_distribution self of
        None \<Rightarrow> Inl Exit
      | Some signal \<Rightarrow>
          (case background_distribution self of
             None \<Rightarrow> Inl Exit
           | Some background \<Rightarrow>
               if \<not> systematics_loaded self then Inl Exit else Inr (signal, background)))"

text \<open>\<^verbatim>\<open>generate_data\<close> of \<^verbatim>\<open>data_generator_all_systematics.py\<close>.\<close>

definition generate_data_all :: "'g env \<Rightarrow> data_generator \<Rightarrow> 'g \<Rightarrow> error + data_generator \<times> 'g" where
  "generate_data_all env self g =
     bind_result (check_loaded self) (\<lambda>(signal, background).
     case generate_points env signal (number_of_signal_events self) (problem_dimension self) g of
       (signal_data, g1) \<Rightarrow>
     case generate_points env background (number_of_background_events self) (problem_dimension self) g1 of
       (background_data0, g2) \<Rightarrow>
     case generate_points env signal (number_of_signal_events self) (problem_dimension self) g2 of
       (biased_signal_data, g3) \<Rightarrow>
     case generate_points env background (number_of_background_events self) (problem_dimension self) g3 of
       (biased_background_data0, g4) \<Rightarrow>
     case copula env self
            (background_data0, biased_background_data0, logger self @ [Success ''Data Generated!'']) of
       (background_data, biased_background_data, logs) \<Rightarrow>
     bind_result
       (frames env self signal_data background_data biased_signal_data biased_background_data logs)
       (\<lambda>st. Inr (finish env self st, g4)))"

text \<open>
  \<^verbatim>\<open>generate_data\<close> of \<^verbatim>\<open>data_generator_mix.py\<close>: lines 220 and 221 are
  \<^verbatim>\<open>biased_signal_data = signal_data\<close> and \<^verbatim>\<open>biased_background_data = background_data\<close>.
\<close>

definition generate_data_mix :: "'g env \<Rightarrow> data_generator \<Rightarrow> 'g \<Rightarrow> error + data_generator \<times> 'g" where
  "generate_data_mix env self g =
     bind_result (check_loaded self) (\<lambda>(signal, background).
     case generate_points env signal (number_of_signal_events self) (problem_dimension self) g of
       (signal_data, g1) \<Rightarrow>
     case generate_points env background (number_of_background_events self) (problem_dimension self) g1 of
       (background_data, g2) \<Rightarrow>
     bind_result
       (frames env self signal_data background_data signal_data background_data
          (logger self @ [Success ''Data Generated!'']))
       (\<lambda>st. Inr (finish env self st, g2)))"

section \<open>Saving the labels\<close>

text \<open>
  Lines 437 to 453: \<^verbatim>\<open>str(int(lbl))\<close> for every label, a newline after each but the last.
\<close>

function str_nat :: "nat \<Rightarrow> string" where
  "str_nat n =
     (if n < 10 then [''0123456789'' ! n] else str_nat (n div 10) @ [''0123456789'' ! (n mod 10)])"
  by pat_completeness auto
termination
  by (relation "measure id") auto

definition str_int :: "int \<Rightarrow> string" where
  "str_int i = (if i < 0 then CHR ''-'' # str_nat (nat (- i)) else str_nat (nat i))"

fun write_labels :: "int list \<Rightarrow> string" where
  "write_labels [] = []"
| "write_labels [lbl] = str_int lbl"
| "write_labels (lbl # rest) = str_int lbl @ [CHR 0x0A] @ write_labels rest"

record label_files =
  train_labels_file :: string
  test_labels_file :: string

definition save_data :: "data_generator \<Rightarrow> error + label_files" where
  "save_data self =
     (case generated_data self of
        None \<Rightarrow> Inl Exit
      | Some _ \<Rightarrow>
          (case (generated_labels self, biased_labels self) of
             (Some train, Some test) \<Rightarrow>
               Inr \<lparr>train_labels_file = write_labels train, test_labels_file = write_labels test\<rparr>
           | _ \<Rightarrow> Inl TypeError))"

section \<open>The systematics\<close>

text \<open>
  Modelled from the spec: \<^verbatim>\<open>Translation.apply_systematics\<close> of \<^verbatim>\<open>systematics.py\<close>, which the
  sources do not hold. The spec: Translation "adds a fixed vector to every point", the
  vector has two components, "first two axes only; higher axes untouched".
\<close>

fun add_axes :: "real list \<Rightarrow> real list \<Rightarrow> real list" where
  "add_axes (v # vs) (x # xs) = (x + v) # add_axes vs xs"
| "add_axes vs xs = xs"

definition Translation_apply_systematics :: "translation \<Rightarrow> nat \<Rightarrow> points \<Rightarrow> points" where
  "Translation_apply_systematics t dimension points' = map (add_axes (translation_vector t)) points'"

text \<open>
  Modelled from the spec: \<^verbatim>\<open>Scaling.apply_systematics\<close> of \<^verbatim>\<open>systematics.py\<close>, which the
  sources do not hold. The spec: Scaling "multiplies coordinates elementwise by a per-axis
  factor".
\<close>

fun mult_axes :: "real list \<Rightarrow> real list \<Rightarrow> real list" where
  "mult_axes (v # vs) (x # xs) = (x * v) # mult_axes vs xs"
| "mult_axes vs xs = xs"

definition Scaling_apply_systematics :: "scaling \<Rightarrow> nat \<Rightarrow> points \<Rightarrow> points" where
  "Scaling_apply_systematics sc dimension points' = map (mult_axes (scaling_vector sc)) points'"

text \<open>
  Modelled from the spec: \<^verbatim>\<open>Rotation.apply_systematics\<close> of \<^verbatim>\<open>systematics.py\<close>, which the
  sources do not hold. The spec: Rotation "rotates the first two axes by a configured
  degree value using a standard 2D rotation matrix".
\<close>

fun rotate_axes :: "real \<Rightarrow> real list \<Rightarrow> real list" where
  "rotate_axes deg (x # y # rest) =
     (x * cos (radians deg) - y * sin (radians deg)) # (x * sin (radians deg) + y * cos (radians deg)) # rest"
| "rotate_axes deg xs = xs"

definition Rotation_apply_systematics :: "rotation \<Rightarrow> nat \<Rightarrow> points \<Rightarrow> points" where
  "Rotation_apply_systematics r dimension points' = map (rotate_axes (rotation_degree r)) points'"

text \<open>
  Modelled from the spec: \<^verbatim>\<open>Box.apply_systematics\<close> of \<^verbatim>\<open>systematics.py\<close>, which the sources
  do not hold. The spec: Box "retains only rows whose coordinates fall within an
  axis-aligned hyper-cube of given side length centered at a configured center point",
  it "must apply identical row-membership filtering to both the original and the biased
  dataframe", and every retained row satisfies \<^verbatim>\<open>|coordinate_i - center_i| <= length/2\<close>
  "for all axes in both frames simultaneously". A row is kept when it is in the box in
  both frames; an axis the centre has no component for is not tested.
\<close>

definition in_box :: "box \<Rightarrow> real list \<Rightarrow> bool" where
  "in_box b p = list_all (\<lambda>(x, c). \<bar>x - c\<bar> \<le> box_length b / 2) (zip p (box_center b))"

definition Box_apply_systematics :: "box \<Rightarrow> frame \<Rightarrow> frame \<Rightarrow> frame \<times> frame" where
  "Box_apply_systematics b df_a df_b =
     (let kept = filter (\<lambda>(row_a, row_b). in_box b (fst row_a) \<and> in_box b (fst row_b)) (zip df_a df_b)
      in (map fst kept, map snd kept))"

section \<open>Example inputs\<close>

text \<open>
  A sampler whose points all carry the number of the draw they come from, stand-ins for
  the two functions of scipy, the four systematics as modelled above, and a shuffle that
  reverses the rows.
\<close>

definition example_env :: "nat env" where
  "example_env =
     \<lparr>generate_points = (\<lambda>dist n d g. (replicate (nat n) (replicate d (real g)), Suc g)),
      norm_cdf = (\<lambda>x. x / 2),
      gamma_ppf = (\<lambda>q a b. q + a + b),
      rotation_apply = Rotation_apply_systematics,
      translation_apply = Translation_apply_systematics,
      scaling_apply = Scaling_apply_systematics,
      box_apply = Box_apply_systematics,
      shuffle_indices = (\<lambda>seed n. rev [0..<n])\<rparr>"

text \<open>
  The settings of \<^verbatim>\<open>setting.py\<close> with two events, and with the keys
  \<^verbatim>\<open>background_mu\<close> and \<^verbatim>\<open>background_sigma\<close> that \<^verbatim>\<open>data_generator_mix.py\<close> reads.
\<close>

definition example_systematic :: systematic_settings where
  "example_systematic =
     \<lparr>s_name = ''Translation'', s_z_magnitude = Some 1, s_alpha = Some 90,
      s_scaling_factor = None, s_box_l = None, s_rotation_degree = None\<rparr>"

definition example_settings :: settings where
  "example_settings =
     \<lparr>cfg_problem_dimension = 2,
      cfg_total_number_of_events = 2,
      cfg_p_b = 1 / 2,
      cfg_generator = Some ''normal'',
      cfg_angle_rotation = None,
      cfg_background_distribution =
        Some \<lparr>d_name = ''Gaussian'', d_mu = Some [0, 0], d_sigma = Some [1, 1],
              d_k = None, d_theta = None\<rparr>,
      cfg_signal_from_background = Some True,
      cfg_theta = Some 0,
      cfg_L = Some 2,
      cfg_signal_sigma_scale = Some (3 / 10),
      cfg_signal_distribution = None,
      cfg_systematics = Some [example_systematic],
      cfg_apply_copula = None,
      cfg_alpha = None,
      cfg_beta = None,
      cfg_background_mu = Some [0, 0],
      cfg_background_sigma = Some [1, 1],
      cfg_background_angle_rotation = None,
      cfg_signal_angle_rotation = None\<rparr>"

text \<open>Twenty test rows, two in each of the ten parts.\<close>

definition example_label :: "int list" where
  "example_label = [1, 0, 1, 0, 1, 0, 1, 0, 1, 0, 1, 0, 1, 0, 1, 0, 1, 0, 1, 0]"

definition example_weights :: "real list" where
  "example_weights = [1, 2, 1, 2, 1, 2, 1, 2, 1, 2, 3, 4, 1, 2, 1, 2, 1, 2, 1, 2]"

text \<open>What \<^verbatim>\<open>data_generator_all_systematics.py\<close> builds from \<open>example_settings\<close>.\<close>

definition example_generator :: data_generator where
  "example_generator =
     \<lparr>settings_box_center = [2, 0],
      signal_distribution =
        Some (Gaussian \<lparr>g_mu = [2, 0], g_sigma = [3 / 10, 3 / 10], g_generator = ''normal'',
                        g_angle_rotation = Some 0\<rparr>),
      background_distribution =
        Some (Gaussian \<lparr>g_mu = [0, 0], g_sigma = [1, 1], g_generator = ''normal'',
                        g_angle_rotation = Some 0\<rparr>),
      systematic_translation =
        Some \<lparr>t_name = ''Translation'', t_allowed_dimension = - 1, translation_vector = [0, 1]\<rparr>,
      systematic_scaling = None,
      systematic_box = None,
      systematic_rotation = None,
      systematics_loaded = True,
      generated_data = None,
      generated_labels = None,
      biased_data = None,
      biased_labels = None,
      problem_dimension = 2,
      ps = 1 / 2,
      pb = 1 / 2,
      total_number_of_events = 2,
      number_of_background_events = 1,
      number_of_signal_events = 1,
      apply_copula = False,
      alpha = None,
      beta = None,
      logger =
        [Success ''Settings Loaded!'', Success ''Background Distributions Loaded!'',
         Success ''Signal Distributions Loaded!'', Success ''Systematics Loaded!'']\<rparr>"

text \<open>What \<^verbatim>\<open>data_generator_mix.py\<close> builds from \<open>example_settings\<close>.\<close>

definition example_generator_mix :: data_generator where
  "example_generator_mix =
     example_generator
       \<lparr>settings_box_center := [],
        signal_distribution :=
          Some (Gaussian \<lparr>g_mu = [2, 0], g_sigma = [3 / 10, 3 / 10], g_generator = ''normal'',
                          g_angle_rotation = None\<rparr>),
        background_distribution :=
          Some (Gaussian \<lparr>g_mu = [0, 0], g_sigma = [1, 1], g_generator = ''normal'',
                          g_angle_rotation = None\<rparr>)\<rparr>"

text \<open>A generator with all four systematics.\<close>

definition example_generator_all_systematics :: data_generator where
  "example_generator_all_systematics =
     example_generator
       \<lparr>systematic_rotation := Some \<lparr>r_name = ''Box'', rotation_degree = 90\<rparr>,
        systematic_scaling :=
          Some \<lparr>sc_name = ''Scaling'', sc_allowed_dimension = - 1, scaling_vector = [2, 2]\<rparr>,
        systematic_box := Some \<lparr>b_name = ''Box'', box_center = [0, 0], box_length = 12\<rparr>\<rparr>"

text \<open>A generator whose copula is switched on with \<open>alpha = 2\<close> and \<open>beta = 0\<close>.\<close>

definition example_generator_copula :: data_generator where
  "example_generator_copula = example_generator\<lparr>apply_copula := True, alpha := Some 2, beta := Some 0\<rparr>"

text \<open>
  Settings whose signal is not derived from the background and is named Gamma, and the
  generator that \<^verbatim>\<open>data_generator_all_systematics.py\<close> builds from them.
\<close>

definition example_settings_gamma_signal :: settings where
  "example_settings_gamma_signal =
     example_settings
       \<lparr>cfg_signal_from_background := Some False,
        cfg_signal_distribution :=
          Some \<lparr>d_name = ''Gamma'', d_mu = None, d_sigma = None, d_k = Some 2, d_theta = Some 1\<rparr>\<rparr>"

definition example_generator_no_signal :: data_generator where
  "example_generator_no_signal =
     example_generator
       \<lparr>settings_box_center := [0, 0],
        signal_distribution := None,
        logger :=
          [Success ''Settings Loaded!'', Success ''Background Distributions Loaded!'',
           Error ''Signal Distributions should be Gaussian only!'', Success ''Systematics Loaded!'']\<rparr>"

section \<open>Event counts\<close>

lemma floor_sum_bounds:
  fixes a b :: real
  assumes "0 \<le> a" "0 \<le> b" "a + b = of_int n"
  shows "\<lfloor>a\<rfloor> + \<lfloor>b\<rfloor> \<le> n \<and> n - (\<lfloor>a\<rfloor> + \<lfloor>b\<rfloor>) < 2"
proof -
  have "of_int (\<lfloor>a\<rfloor> + \<lfloor>b\<rfloor>) \<le> (of_int n :: real)"
    using of_int_floor_le[of a] of_int_floor_le[of b] assms(3) by linarith
  then have 1: "\<lfloor>a\<rfloor> + \<lfloor>b\<rfloor> \<le> n" by linarith
  have "a < of_int \<lfloor>a\<rfloor> + 1" "b < of_int \<lfloor>b\<rfloor> + 1" by linarith+
  then have "(of_int n :: real) < of_int (\<lfloor>a\<rfloor> + \<lfloor>b\<rfloor> + 2)" using assms(3) by linarith
  then have "n < \<lfloor>a\<rfloor> + \<lfloor>b\<rfloor> + 2" by linarith
  with 1 show ?thesis by simp
qed

lemma counts_mix:
  assumes "0 \<le> n" "0 < p" "p < 1"
  shows "signal_events_mix n p + background_events n p \<le> n
       \<and> n - (signal_events_mix n p + background_events n p) < 2"
proof -
  have a: "0 \<le> of_int n * (1 - p)" using assms by simp
  have b: "0 \<le> of_int n * p" using assms by simp
  have c: "of_int n * (1 - p) + of_int n * p = of_int n" by (simp add: algebra_simps)
  show ?thesis
    using floor_sum_bounds[OF a b c] a b
    by (simp add: signal_events_mix_def background_events_def ps_mix_def py_int_def)
qed

lemma round_half_even_of_int: "round_half_even (of_int k) = k"
  by (simp add: round_half_even_def)

lemma py_round_exact:
  assumes "x * 10 ^ nd = of_int k"
  shows "py_round x nd = x"
proof -
  have "py_round x nd = of_int k / 10 ^ nd"
    by (simp add: py_round_def assms round_half_even_of_int)
  also have "\<dots> = x" using assms[symmetric] by simp
  finally show ?thesis .
qed

lemma counts_all:
  assumes "0 \<le> n" "0 < p" "p < 1" "p * 10 ^ 5 = of_int k"
  shows "signal_events_all n p + background_events n p \<le> n
       \<and> n - (signal_events_all n p + background_events n p) < 2"
proof -
  have h: "(1 - p) * 10 ^ 5 = of_int (10 ^ 5 - k)" using assms(4) by (simp add: algebra_simps)
  have "ps_all p = ps_mix p" unfolding ps_all_def ps_mix_def by (rule py_round_exact[OF h])
  then have "signal_events_all n p = signal_events_mix n p"
    by (simp add: signal_events_all_def signal_events_mix_def)
  then show ?thesis using counts_mix[OF assms(1-3)] by simp
qed

text \<open>
  C2, as amended. With a non-negative number of events and \<open>p_b\<close> strictly between 0 and
  1, the two counts of \<^verbatim>\<open>data_generator_mix.py\<close> (\<open>p_s = 1 - p_b\<close>) add up to at most the
  number of events and fall short of it by less than 2; the counts of
  \<^verbatim>\<open>data_generator_all_systematics.py\<close> (\<open>p_s = round(1 - p_b, 5)\<close>) do so when \<open>p_b\<close> is a
  multiple of \<open>1/100000\<close>, where the rounding changes nothing.
\<close>

theorem event_counts_within_total:
  assumes "0 \<le> n" "0 < p" "p < 1"
  shows "(signal_events_mix n p + background_events n p \<le> n
          \<and> n - (signal_events_mix n p + background_events n p) < 2)
       \<and> ((\<exists>k::int. p * 10 ^ 5 = of_int k) \<longrightarrow>
            signal_events_all n p + background_events n p \<le> n
          \<and> n - (signal_events_all n p + background_events n p) < 2)"
  using counts_mix[OF assms] counts_all[OF assms] by blast

theorem event_counts_within_total_witness:
  "(0::int) \<le> 1000 \<and> (0::real) < 1 / 2 \<and> (1 / 2 :: real) < 1
   \<and> (\<exists>k::int. (1 / 2 :: real) * 10 ^ 5 = of_int k)
   \<and> signal_events_mix 1000 (1 / 2) + background_events 1000 (1 / 2) \<le> 1000
   \<and> 1000 - (signal_events_mix 1000 (1 / 2) + background_events 1000 (1 / 2)) < 2
   \<and> signal_events_all 1000 (1 / 2) + background_events 1000 (1 / 2) \<le> 1000
   \<and> 1000 - (signal_events_all 1000 (1 / 2) + background_events 1000 (1 / 2)) < 2"
proof -
  have k: "\<exists>k::int. (1 / 2 :: real) * 10 ^ 5 = of_int k"
    by (rule exI[of _ 50000]) simp
  show ?thesis
    using event_counts_within_total[of 1000 "1 / 2"] k by simp
qed

text \<open>
  C2 as stated fails in \<^verbatim>\<open>data_generator_all_systematics.py\<close>: with a million events and
  \<open>p_b = 0.0000015\<close> the signal fraction rounds to 1, and the counts are 1000000 and 1.
\<close>

theorem event_counts_exceed_total:
  "(0::int) \<le> 1000000 \<and> (0::real) < 15 / 10000000 \<and> (15 / 10000000 :: real) < 1
   \<and> ps_all (15 / 10000000) = 1
   \<and> signal_events_all 1000000 (15 / 10000000) = 1000000
   \<and> background_events 1000000 (15 / 10000000) = 1
   \<and> \<not> signal_events_all 1000000 (15 / 10000000) + background_events 1000000 (15 / 10000000)
        \<le> 1000000"
  by (simp add: signal_events_all_def background_events_def ps_all_def py_round_def
      round_half_even_def py_int_def Let_def)

section \<open>Reweighting\<close>

lemma weight_sum_scale_same:
  "weight_sum l label (scale_weights l c label weights) = weight_sum l label weights * c"
proof (induction label arbitrary: weights)
  case Nil
  then show ?case by (simp add: weight_sum_def scale_weights_def)
next
  case (Cons a label)
  then show ?case
    by (cases weights) (simp_all add: weight_sum_def scale_weights_def algebra_simps)
qed

lemma weight_sum_scale_other:
  "l' \<noteq> l \<Longrightarrow> weight_sum l' label (scale_weights l c label weights) = weight_sum l' label weights"
proof (induction label arbitrary: weights)
  case Nil
  then show ?case by (simp add: weight_sum_def scale_weights_def)
next
  case (Cons a label)
  then show ?case
    by (cases weights) (simp_all add: weight_sum_def scale_weights_def)
qed

lemma reweight_signal:
  assumes "weight_sum 1 label weights \<noteq> 0"
  shows "weight_sum 1 label (reweight S B label weights) = S"
  using assms by (simp add: reweight_def Let_def weight_sum_scale_other weight_sum_scale_same)

lemma reweight_background:
  assumes "weight_sum 0 label weights \<noteq> 0"
  shows "weight_sum 0 label (reweight S B label weights) = B"
  using assms by (simp add: reweight_def Let_def weight_sum_scale_other weight_sum_scale_same)

text \<open>
  C4. When \<^verbatim>\<open>DataGenerator()\<close> of \<^verbatim>\<open>datagen_temp.py\<close> gets through, the train weights, the
  weights of the mu-calibration fold and the weights of every test fold after line 151
  have the signal total and the background total of the full dataset, each whenever the
  subset's own sum of that class was not zero.
\<close>

theorem reweight_totals:
  assumes "DataGenerator_HEP label weights train_label train_weights test_label test_weights mu = Inr out"
  shows "(weight_sum 1 train_label train_weights \<noteq> 0 \<longrightarrow>
            weight_sum 1 train_label (train_weights_written out) = weight_sum 1 label weights)
       \<and> (weight_sum 0 train_label train_weights \<noteq> 0 \<longrightarrow>
            weight_sum 0 train_label (train_weights_written out) = weight_sum 0 label weights)
       \<and> (\<exists>mu_calc_label mu_calc_weights test_label_parts test_weights_parts.
            tenths test_label = Inr (mu_calc_label # test_label_parts)
          \<and> tenths test_weights = Inr (mu_calc_weights # test_weights_parts)
          \<and> (weight_sum 1 mu_calc_label mu_calc_weights \<noteq> 0 \<longrightarrow>
               weight_sum 1 mu_calc_label (mu_calc_weights_written out) = weight_sum 1 label weights)
          \<and> (weight_sum 0 mu_calc_label mu_calc_weights \<noteq> 0 \<longrightarrow>
               weight_sum 0 mu_calc_label (mu_calc_weights_written out) = weight_sum 0 label weights)
          \<and> length (test_weights_reweighted out) = min (length test_label_parts) (length test_weights_parts)
          \<and> (\<forall>i < length (test_weights_reweighted out).
               (weight_sum 1 (test_label_parts ! i) (test_weights_parts ! i) \<noteq> 0 \<longrightarrow>
                  weight_sum 1 (test_label_parts ! i) (test_weights_reweighted out ! i)
                    = weight_sum 1 label weights)
             \<and> (weight_sum 0 (test_label_parts ! i) (test_weights_parts ! i) \<noteq> 0 \<longrightarrow>
                  weight_sum 0 (test_label_parts ! i) (test_weights_reweighted out ! i)
                    = weight_sum 0 label weights)))"
proof -
  from assms obtain mw rw ml rl where
    tw: "tenths test_weights = Inr (mw # rw)" and tl: "tenths test_label = Inr (ml # rl)"
    by (auto simp: DataGenerator_HEP_def Let_def split: sum.splits list.splits)
  from assms tw tl have
    a: "train_weights_written out =
          reweight (weight_sum 1 label weights) (weight_sum 0 label weights) train_label train_weights"
    and b: "mu_calc_weights_written out =
          reweight (weight_sum 1 label weights) (weight_sum 0 label weights) ml mw"
    and c: "test_weights_reweighted out =
          map (\<lambda>f. reweight (weight_sum 1 label weights) (weight_sum 0 label weights) (fst f) (snd f))
            (zip rl rw)"
    by (auto simp: DataGenerator_HEP_def Let_def)
  show ?thesis
    apply (intro conjI)
      apply (simp add: a reweight_signal)
     apply (simp add: a reweight_background)
    apply (rule exI[of _ ml], rule exI[of _ mw], rule exI[of _ rl], rule exI[of _ rw])
    apply (simp add: tw tl b c reweight_signal reweight_background)
    done
qed

theorem reweight_totals_witness:
  "DataGenerator_HEP ([1, 0] @ example_label) ([3, 5] @ example_weights) [1, 0] [3, 5]
      example_label example_weights (\<lambda>i. 2)
     = Inr \<lparr>train_weights_written = [15, 27], mu_calc_weights_written = [15, 27],
            test_weights_reweighted =
              [[15, 27], [15, 27], [15, 27], [15, 27], [15, 27], [15, 27], [15, 27], [15, 27], [15, 27]],
            test_weights_written =
              [[30, 27], [30, 27], [30, 27], [30, 27], [30, 27], [30, 27], [30, 27], [30, 27], [30, 27]]\<rparr>
   \<and> weight_sum 1 [1, 0] [3, 5] \<noteq> 0 \<and> weight_sum 0 [1, 0] [3, 5] \<noteq> 0
   \<and> weight_sum 1 ([1, 0] @ example_label) ([3, 5] @ example_weights) = 15
   \<and> weight_sum 0 ([1, 0] @ example_label) ([3, 5] @ example_weights) = 27
   \<and> weight_sum 1 [1, 0] [15, 27] = 15 \<and> weight_sum 0 [1, 0] [15, 27] = 27"
proof -
  have run: "DataGenerator_HEP ([1, 0] @ example_label) ([3, 5] @ example_weights) [1, 0] [3, 5]
      example_label example_weights (\<lambda>i. 2)
     = Inr \<lparr>train_weights_written = [15, 27], mu_calc_weights_written = [15, 27],
            test_weights_reweighted =
              [[15, 27], [15, 27], [15, 27], [15, 27], [15, 27], [15, 27], [15, 27], [15, 27], [15, 27]],
            test_weights_written =
              [[30, 27], [30, 27], [30, 27], [30, 27], [30, 27], [30, 27], [30, 27], [30, 27], [30, 27]]\<rparr>"
    by (simp add: DataGenerator_HEP_def tenths_def slices_def example_label_def example_weights_def
        Let_def reweight_def weight_sum_def scale_weights_def)
  have sums: "weight_sum 1 [1, 0] [3, 5] \<noteq> 0" "weight_sum 0 [1, 0] [3, 5] \<noteq> 0"
    "weight_sum 1 ([1, 0] @ example_label) ([3, 5] @ example_weights) = 15"
    "weight_sum 0 ([1, 0] @ example_label) ([3, 5] @ example_weights) = 27"
    by (simp_all add: weight_sum_def example_label_def example_weights_def)
  show ?thesis
    using reweight_totals[OF run] sums run by simp
qed

section \<open>Evaluating the examples\<close>

lemmas constants_defs = DISTRIBUTION_GAUSSIAN_def DISTRIBUTION_GAMMA_def SYSTEMATIC_TRANSLATION_def
  SYSTEMATIC_SCALING_def SYSTEMATIC_BOX_def SYSTEMATIC_ROTATION_def SIGNAL_LABEL_def BACKGROUND_LABEL_def

lemmas load_defs = load_systematic_def load_translation_def load_scaling_def load_box_def
  load_rotation_def req_def bind_result_def

lemmas generate_defs = check_loaded_def copula_def truthy_def frames_def finish_def stack_def
  apply_rotation_def apply_translation_def apply_scaling_def apply_box_def shuffle_def bind_result_def
  Translation_apply_systematics_def Scaling_apply_systematics_def Rotation_apply_systematics_def
  Box_apply_systematics_def in_box_def

lemma example_counts:
  "signal_events_all 2 (1 / 2) = 1" "background_events 2 (1 / 2) = 1" "signal_events_mix 2 (1 / 2) = 1"
  "ps_all (1 / 2) = 1 / 2" "ps_mix (1 / 2) = 1 / 2"
  by (simp_all add: signal_events_all_def background_events_def signal_events_mix_def ps_mix_def
      ps_all_def py_round_def round_half_even_def py_int_def Let_def)

lemma init_all_example: "init_all example_settings = Inr example_generator"
  by (simp add: init_all_def example_settings_def example_systematic_def example_generator_def
      load_background_all_def load_signal_all_def load_defs constants_defs np_add_def z_all_def
      radians_def example_counts)

lemma generate_data_all_example:
  "generate_data_all example_env example_generator 0 =
     Inr (example_generator
            \<lparr>generated_data := Some [[1, 1], [0, 0]], generated_labels := Some [0, 1],
             biased_data := Some [[3, 4], [2, 3]], biased_labels := Some [0, 1],
             logger := logger example_generator @
               [Success ''Data Generated!'', Success ''Translation Systematics Applied!'']\<rparr>, 4)"
  by (simp add: generate_data_all_def example_env_def example_generator_def generate_defs constants_defs Let_def numeral_2_eq_2)

section \<open>Shuffling\<close>

lemma shuffle_indices_in_range:
  assumes "mset (shuffle_indices env seed n) = mset [0..<n]"
  shows "set (shuffle_indices env seed n) \<subseteq> {..<n}"
proof -
  have "set (shuffle_indices env seed n) = set [0..<n]"
    using assms by (rule mset_eq_setD)
  then show ?thesis by auto
qed

lemma shuffle_zip:
  assumes "length data = length labels"
    and "set (shuffle_indices env seed (length data)) \<subseteq> {..<length data}"
  shows "zip (shuffle env seed data) (shuffle env seed labels) = shuffle env seed (zip data labels)"
  using assms by (auto simp: shuffle_def zip_map_map zip_same_conv_map subset_iff)

lemma shuffle_map:
  assumes "set (shuffle_indices env seed (length xs)) \<subseteq> {..<length xs}"
  shows "shuffle env seed (map f xs) = map f (shuffle env seed xs)"
  using assms by (auto simp: shuffle_def subset_iff)

lemma mset_shuffle:
  assumes "mset (shuffle_indices env seed (length xs)) = mset [0..<length xs]"
  shows "mset (shuffle env seed xs) = mset xs"
proof -
  have "mset (shuffle env seed xs) = image_mset (\<lambda>i. xs ! i) (mset (shuffle_indices env seed (length xs)))"
    by (simp add: shuffle_def)
  also have "\<dots> = mset (map (\<lambda>i. xs ! i) [0..<length xs])" by (simp add: assms)
  also have "\<dots> = mset xs" by (simp add: map_nth)
  finally show ?thesis .
qed

lemma generate_data_all_frames:
  assumes "generate_data_all env self g = Inr (self', g')"
  shows "\<exists>a b c d logs st. frames env self a b c d logs = Inr st \<and> self' = finish env self st"
  using assms
  apply (auto simp: generate_data_all_def bind_result_def split: sum.splits prod.splits)
  apply blast
  done

lemma generate_data_mix_frames:
  assumes "generate_data_mix env self g = Inr (self', g')"
  shows "\<exists>a b c d logs st. frames env self a b c d logs = Inr st \<and> self' = finish env self st"
  using assms
  apply (auto simp: generate_data_mix_def bind_result_def split: sum.splits prod.splits)
  apply blast
  done

text \<open>
  C3. Let the shuffle of every seed and every number of rows be a permutation of the row
  positions. Then shuffling data and labels of equal length by two calls with the same seed
  gives the rows of the jointly shuffled pairs: every label stays with its row, and the
  pairs are those there were. So the data and the labels that \<^verbatim>\<open>generate_data\<close> stores, in
  either generator, are the two columns of one shuffle of the original frame, and of one
  shuffle of the biased frame.
\<close>

theorem shuffle_alignment:
  assumes perm: "\<And>seed n. mset (shuffle_indices env seed n) = mset [0..<n]"
  shows "(\<forall>seed data labels. length data = length labels \<longrightarrow>
            zip (shuffle env seed data) (shuffle env seed labels) = shuffle env seed (zip data labels)
          \<and> mset (zip (shuffle env seed data) (shuffle env seed labels)) = mset (zip data labels))
       \<and> (\<forall>self g self' g'.
            generate_data_all env self g = Inr (self', g') \<or> generate_data_mix env self g = Inr (self', g') \<longrightarrow>
            (\<exists>a b c d logs generated_dataframe biased_dataframe logs'.
               frames env self a b c d logs = Inr (generated_dataframe, biased_dataframe, logs')
             \<and> generated_data self' = Some (map fst (shuffle env 33 generated_dataframe))
             \<and> generated_labels self' = Some (map snd (shuffle env 33 generated_dataframe))
             \<and> mset (shuffle env 33 generated_dataframe) = mset generated_dataframe
             \<and> biased_data self' = Some (map fst (shuffle env 33 biased_dataframe))
             \<and> biased_labels self' = Some (map snd (shuffle env 33 biased_dataframe))
             \<and> mset (shuffle env 33 biased_dataframe) = mset biased_dataframe))"
proof (intro conjI allI impI)
  fix seed and data :: "'b list" and labels :: "'c list"
  assume len: "length data = length labels"
  have rng: "set (shuffle_indices env seed (length data)) \<subseteq> {..<length data}"
    by (rule shuffle_indices_in_range[OF perm])
  show "zip (shuffle env seed data) (shuffle env seed labels) = shuffle env seed (zip data labels)"
    by (rule shuffle_zip[OF len rng])
  then show "mset (zip (shuffle env seed data) (shuffle env seed labels)) = mset (zip data labels)"
    using mset_shuffle[of env seed "zip data labels"] perm by simp
next
  fix self g self' g'
  assume "generate_data_all env self g = Inr (self', g') \<or> generate_data_mix env self g = Inr (self', g')"
  then have "\<exists>a b c d logs st. frames env self a b c d logs = Inr st \<and> self' = finish env self st"
  proof
    assume "generate_data_all env self g = Inr (self', g')"
    then show ?thesis by (rule generate_data_all_frames)
  next
    assume "generate_data_mix env self g = Inr (self', g')"
    then show ?thesis by (rule generate_data_mix_frames)
  qed
  then obtain a b c d logs st where st: "frames env self a b c d logs = Inr st" "self' = finish env self st"
    by blast
  obtain gdf bdf logs' where [simp]: "st = (gdf, bdf, logs')" by (cases st) auto
  have r1: "set (shuffle_indices env 33 (length gdf)) \<subseteq> {..<length gdf}"
    and r2: "set (shuffle_indices env 33 (length bdf)) \<subseteq> {..<length bdf}"
    by (rule shuffle_indices_in_range[OF perm])+
  show "\<exists>a b c d logs generated_dataframe biased_dataframe logs'.
               frames env self a b c d logs = Inr (generated_dataframe, biased_dataframe, logs')
             \<and> generated_data self' = Some (map fst (shuffle env 33 generated_dataframe))
             \<and> generated_labels self' = Some (map snd (shuffle env 33 generated_dataframe))
             \<and> mset (shuffle env 33 generated_dataframe) = mset generated_dataframe
             \<and> biased_data self' = Some (map fst (shuffle env 33 biased_dataframe))
             \<and> biased_labels self' = Some (map snd (shuffle env 33 biased_dataframe))
             \<and> mset (shuffle env 33 biased_dataframe) = mset biased_dataframe"
    apply (rule exI[of _ a], rule exI[of _ b], rule exI[of _ c], rule exI[of _ d], rule exI[of _ logs])
    apply (rule exI[of _ gdf], rule exI[of _ bdf], rule exI[of _ logs'])
    using st r1 r2 perm
    by (simp add: finish_def shuffle_map mset_shuffle)
qed


theorem shuffle_alignment_witness:
  "(\<forall>seed n. mset (shuffle_indices example_env seed n) = mset [0..<n])
   \<and> zip (shuffle example_env 33 [[1, 2], [3, 4], [5, 6 :: real]]) (shuffle example_env 33 [1, 0, 1 :: int])
       = [([5, 6], 1), ([3, 4], 0), ([1, 2], 1)]
   \<and> mset (zip (shuffle example_env 33 [[1, 2], [3, 4], [5, 6 :: real]])
             (shuffle example_env 33 [1, 0, 1 :: int]))
       = mset [([1, 2], 1), ([3, 4], 0), ([5, 6], 1)]
   \<and> (\<exists>self'. generate_data_all example_env example_generator 0 = Inr (self', 4)
         \<and> generated_data self' = Some [[1, 1], [0, 0]] \<and> generated_labels self' = Some [0, 1]
         \<and> biased_data self' = Some [[3, 4], [2, 3]] \<and> biased_labels self' = Some [0, 1])"
proof -
  have perm: "\<And>seed n. mset (shuffle_indices example_env seed n) = mset [0..<n]"
    by (simp add: example_env_def)
  have sh: "shuffle example_env 33 (zip [[1, 2], [3, 4], [5, 6 :: real]] [1, 0, 1 :: int])
              = [([5, 6], 1), ([3, 4], 0), ([1, 2], 1)]"
    by (simp add: shuffle_def example_env_def upt_rec[of _ "numeral _"] upt_rec[of _ "Suc _"])
  have "zip (shuffle example_env 33 [[1, 2], [3, 4], [5, 6 :: real]]) (shuffle example_env 33 [1, 0, 1 :: int])
          = shuffle example_env 33 (zip [[1, 2], [3, 4], [5, 6]] [1, 0, 1])
        \<and> mset (zip (shuffle example_env 33 [[1, 2], [3, 4], [5, 6 :: real]])
                  (shuffle example_env 33 [1, 0, 1 :: int]))
          = mset (zip [[1, 2], [3, 4], [5, 6]] [1, 0, 1])"
    by (rule shuffle_alignment[of example_env, OF perm, THEN conjunct1, rule_format]) simp
  then show ?thesis
    using perm sh generate_data_all_example by simp
qed

section \<open>Labels of the two sets\<close>

lemma stack_labels:
  assumes "stack d l data biased = Inr (df, df_biased)"
  shows "map snd df = map snd df_biased"
  using assms by (auto simp: stack_def Let_def split: if_splits)

lemma zip_same_labels:
  assumes "map snd df_a = map snd df_b"
  shows "\<forall>(row_a, row_b) \<in> set (zip df_a df_b). snd row_a = snd row_b"
proof -
  have len: "length df_a = length df_b" using assms by (rule map_eq_imp_length_eq)
  from len assms show ?thesis
    by (induction df_a df_b rule: list_induct2) auto
qed

lemma Box_apply_systematics_labels:
  assumes "map snd df_a = map snd df_b" and "Box_apply_systematics b df_a df_b = (df_a', df_b')"
  shows "map snd df_a' = map snd df_b'"
proof -
  have "\<forall>(row_a, row_b) \<in> set (zip df_a df_b). snd row_a = snd row_b"
    using assms(1) by (rule zip_same_labels)
  then have "\<forall>(row_a, row_b) \<in>
      set (filter (\<lambda>(row_a, row_b). in_box b (fst row_a) \<and> in_box b (fst row_b)) (zip df_a df_b)).
      snd row_a = snd row_b"
    by auto
  then show ?thesis
    using assms(2) by (auto simp: Box_apply_systematics_def Let_def)
qed

lemma frames_labels:
  assumes "box_apply env = Box_apply_systematics"
    and "frames env self a b c d logs = Inr (generated_dataframe, biased_dataframe, logs')"
  shows "map snd generated_dataframe = map snd biased_dataframe"
proof -
  obtain c' d' l1 where rts: "apply_scaling env self (apply_translation env self (apply_rotation env self
             (c, d, logs))) = (c', d', l1)"
    by (metis prod_cases3)
  from assms(2) rts obtain s sb where s: "stack (problem_dimension self) SIGNAL_LABEL a c' = Inr (s, sb)"
    by (auto simp: frames_def bind_result_def split: sum.splits)
  from assms(2) rts s obtain g gb where g: "stack (problem_dimension self) BACKGROUND_LABEL b d' = Inr (g, gb)"
    by (auto simp: frames_def bind_result_def split: sum.splits)
  from assms(2) rts s g have bx:
    "apply_box env self (s @ g, sb @ gb, l1) = (generated_dataframe, biased_dataframe, logs')"
    by (simp add: frames_def bind_result_def)
  have eq: "map snd (s @ g) = map snd (sb @ gb)"
    using stack_labels[OF s] stack_labels[OF g] by simp
  show ?thesis
  proof (cases "systematic_box self")
    case None
    with bx eq show ?thesis by (simp add: apply_box_def)
  next
    case (Some bb)
    with bx assms(1) obtain x y where "Box_apply_systematics bb (s @ g) (sb @ gb) = (x, y)"
      and "generated_dataframe = x" "biased_dataframe = y"
      by (auto simp: apply_box_def split: prod.splits)
    then show ?thesis using Box_apply_systematics_labels[OF eq] by simp
  qed
qed

text \<open>
  C9. With the Box systematic as the spec describes it, every run of \<^verbatim>\<open>generate_data\<close> of
  \<^verbatim>\<open>data_generator_all_systematics.py\<close> that returns leaves the same label array for the
  original and the biased set, and \<^verbatim>\<open>save_data\<close> writes two label files of the same
  content.
\<close>

theorem labels_identical:
  assumes "box_apply env = Box_apply_systematics"
    and "generate_data_all env self g = Inr (self', g')"
  shows "generated_labels self' = biased_labels self' \<and> generated_labels self' \<noteq> None
       \<and> (\<exists>files. save_data self' = Inr files \<and> train_labels_file files = test_labels_file files)"
proof -
  from generate_data_all_frames[OF assms(2)] obtain a b c d logs st where
    st: "frames env self a b c d logs = Inr st" "self' = finish env self st"
    by blast
  obtain gdf bdf logs' where [simp]: "st = (gdf, bdf, logs')" by (cases st) auto
  have "map snd gdf = map snd bdf"
    using frames_labels[OF assms(1)] st(1) by simp
  then show ?thesis
    using st(2) by (simp add: finish_def save_data_def)
qed

theorem labels_identical_witness:
  "box_apply example_env = Box_apply_systematics
   \<and> generate_data_all example_env (example_generator\<lparr>systematic_box := Some \<lparr>b_name = ''Box'', box_center = [0, 0], box_length = 7\<rparr>\<rparr>) 0
       = Inr (example_generator
            \<lparr>systematic_box := Some \<lparr>b_name = ''Box'', box_center = [0, 0], box_length = 7\<rparr>,
             generated_data := Some [[0, 0]], generated_labels := Some [1],
             biased_data := Some [[2, 3]], biased_labels := Some [1],
             logger := logger example_generator @
               [Success ''Data Generated!'', Success ''Translation Systematics Applied!'',
                Success ''Box Systematics Applied!'']\<rparr>, 4)
   \<and> save_data (example_generator\<lparr>generated_data := Some [[0, 0]], generated_labels := Some [1],
             biased_data := Some [[2, 3]], biased_labels := Some [1]\<rparr>)
       = Inr \<lparr>train_labels_file = ''1'', test_labels_file = ''1''\<rparr>"
proof -
  have bx: "box_apply example_env = Box_apply_systematics" by (simp add: example_env_def)
  have run: "generate_data_all example_env (example_generator\<lparr>systematic_box := Some \<lparr>b_name = ''Box'', box_center = [0, 0], box_length = 7\<rparr>\<rparr>) 0
       = Inr (example_generator
            \<lparr>systematic_box := Some \<lparr>b_name = ''Box'', box_center = [0, 0], box_length = 7\<rparr>,
             generated_data := Some [[0, 0]], generated_labels := Some [1],
             biased_data := Some [[2, 3]], biased_labels := Some [1],
             logger := logger example_generator @
               [Success ''Data Generated!'', Success ''Translation Systematics Applied!'',
                Success ''Box Systematics Applied!'']\<rparr>, 4)"
    by (simp add: generate_data_all_def example_env_def example_generator_def generate_defs
        constants_defs Let_def numeral_2_eq_2)
  have sv: "save_data (example_generator\<lparr>generated_data := Some [[0, 0]], generated_labels := Some [1],
             biased_data := Some [[2, 3]], biased_labels := Some [1]\<rparr>)
       = Inr \<lparr>train_labels_file = ''1'', test_labels_file = ''1''\<rparr>"
    by (simp add: save_data_def str_int_def)
  show ?thesis
    using labels_identical[OF bx run] bx run sv by simp
qed


section \<open>Order of the systematics\<close>

text \<open>
  C5. Whenever lines 287 to 350 of \<^verbatim>\<open>generate_data\<close> (223 to 283 in
  \<^verbatim>\<open>data_generator_mix.py\<close>) get through, the biased frame is built from the biased signal
  points and the biased background points, each put through Rotation, then Translation,
  then Scaling, where a systematic that was not constructed changes nothing; Box, when
  constructed, is applied last and once, to the concatenated original frame and the
  concatenated biased frame together.
\<close>

theorem systematics_order:
  assumes "frames env self signal_data background_data biased_signal_data biased_background_data logs
             = Inr (generated_dataframe, biased_dataframe, logs')"
  shows "(let d = problem_dimension self;
              R = (case systematic_rotation self of None \<Rightarrow> (\<lambda>p. p) | Some r \<Rightarrow> rotation_apply env r d);
              T = (case systematic_translation self of None \<Rightarrow> (\<lambda>p. p) | Some t \<Rightarrow> translation_apply env t d);
              S = (case systematic_scaling self of None \<Rightarrow> (\<lambda>p. p) | Some sc \<Rightarrow> scaling_apply env sc d);
              original = zip signal_data (replicate (length signal_data) SIGNAL_LABEL)
                       @ zip background_data (replicate (length background_data) BACKGROUND_LABEL);
              biased = zip (S (T (R biased_signal_data))) (replicate (length signal_data) SIGNAL_LABEL)
                     @ zip (S (T (R biased_background_data)))
                         (replicate (length background_data) BACKGROUND_LABEL)
          in (generated_dataframe, biased_dataframe) =
               (case systematic_box self of
                  None \<Rightarrow> (original, biased)
                | Some b \<Rightarrow> box_apply env b original biased))"
  using assms
  by (auto simp: frames_def apply_rotation_def apply_translation_def apply_scaling_def
      apply_box_def stack_def bind_result_def Let_def
      split: option.splits if_splits prod.splits)


theorem systematics_order_witness:
  "frames example_env example_generator_all_systematics [[5, 5]] [[6, 6], [7, 7]] [[1, 0]] [[0, 1], [3, 0]] []
     = Inr ([([5, 5], 1), ([6, 6], 0)], [([0, 4], 1), ([- 2, 2], 0)],
            [Success ''Rotation Systematics Applied!'', Success ''Translation Systematics Applied!'',
             Success ''Scaling Systematics Applied!'', Success ''Box Systematics Applied!''])"
proof -
  have run: "frames example_env example_generator_all_systematics [[5, 5]] [[6, 6], [7, 7]] [[1, 0]] [[0, 1], [3, 0]] []
     = Inr ([([5, 5], 1), ([6, 6], 0)], [([0, 4], 1), ([- 2, 2], 0)],
            [Success ''Rotation Systematics Applied!'', Success ''Translation Systematics Applied!'',
             Success ''Scaling Systematics Applied!'', Success ''Box Systematics Applied!''])"
    by (simp add: example_generator_all_systematics_def example_env_def example_generator_def
        generate_defs constants_defs Let_def radians_def)
  show ?thesis
    using systematics_order[OF run] run by simp
qed



section \<open>The draws\<close>

lemma init_mix_example: "init_mix example_settings = Inr example_generator_mix"
  by (simp add: init_mix_def example_settings_def example_systematic_def example_generator_def
      example_generator_mix_def load_defs constants_defs np_add_def z_mix_def
      radians_def example_counts py_round_def round_half_even_def)

lemma check_loaded_Inr:
  assumes "check_loaded self = Inr (signal, background)"
  shows "signal_distribution self = Some signal \<and> background_distribution self = Some background"
  using assms by (simp add: check_loaded_def split: option.splits if_splits)

lemma generate_data_all_draws:
  assumes "generate_data_all env self g = Inr (self', g')"
  shows "\<exists>signal background.
         signal_distribution self = Some signal \<and> background_distribution self = Some background
       \<and> (let n_s = number_of_signal_events self;
               n_b = number_of_background_events self;
               d = problem_dimension self;
               draw1 = generate_points env signal n_s d g;
               draw2 = generate_points env background n_b d (snd draw1);
               draw3 = generate_points env signal n_s d (snd draw2);
               draw4 = generate_points env background n_b d (snd draw3);
               after_copula = copula env self (fst draw2, fst draw4, logger self @ [Success ''Data Generated!''])
           in g' = snd draw4
            \<and> (\<exists>st. frames env self (fst draw1) (fst after_copula) (fst draw3) (fst (snd after_copula))
                        (snd (snd after_copula)) = Inr st
                    \<and> self' = finish env self st))"
proof -
  from assms obtain signal background where cl: "check_loaded self = Inr (signal, background)"
    by (cases "check_loaded self") (auto simp: generate_data_all_def bind_result_def)
  note sb = check_loaded_Inr[OF cl]
  obtain sd g1 where d1:
    "generate_points env signal (number_of_signal_events self) (problem_dimension self) g = (sd, g1)"
    by fastforce
  obtain bd g2 where d2:
    "generate_points env background (number_of_background_events self) (problem_dimension self) g1 = (bd, g2)"
    by fastforce
  obtain bsd g3 where d3:
    "generate_points env signal (number_of_signal_events self) (problem_dimension self) g2 = (bsd, g3)"
    by fastforce
  obtain bbd g4 where d4:
    "generate_points env background (number_of_background_events self) (problem_dimension self) g3 = (bbd, g4)"
    by fastforce
  obtain cb cbb cl' where cp:
    "copula env self (bd, bbd, logger self @ [Success ''Data Generated!'']) = (cb, cbb, cl')"
    by (metis prod_cases3)
  from assms have
    "bind_result (frames env self sd cb bsd cbb cl') (\<lambda>st. Inr (finish env self st, g4)) = Inr (self', g')"
    by (simp add: generate_data_all_def cl d1 d2 d3 d4 cp bind_result_def)
  then have "g' = g4 \<and> (\<exists>st. frames env self sd cb bsd cbb cl' = Inr st \<and> self' = finish env self st)"
    by (auto simp: bind_result_def split: sum.splits)
  then show ?thesis
    using sb by (simp add: Let_def d1 d2 d3 d4 cp)
qed

lemma generate_data_mix_draws:
  assumes "generate_data_mix env self g = Inr (self', g')"
  shows "\<exists>signal background.
         signal_distribution self = Some signal \<and> background_distribution self = Some background
       \<and> (let n_s = number_of_signal_events self;
               n_b = number_of_background_events self;
               d = problem_dimension self;
               draw1 = generate_points env signal n_s d g;
               draw2 = generate_points env background n_b d (snd draw1)
           in g' = snd draw2
            \<and> (\<exists>st. frames env self (fst draw1) (fst draw2) (fst draw1) (fst draw2)
                        (logger self @ [Success ''Data Generated!'']) = Inr st
                    \<and> self' = finish env self st))"
proof -
  from assms obtain signal background where cl: "check_loaded self = Inr (signal, background)"
    by (cases "check_loaded self") (auto simp: generate_data_mix_def bind_result_def)
  note sb = check_loaded_Inr[OF cl]
  obtain sd g1 where d1:
    "generate_points env signal (number_of_signal_events self) (problem_dimension self) g = (sd, g1)"
    by fastforce
  obtain bd g2 where d2:
    "generate_points env background (number_of_background_events self) (problem_dimension self) g1 = (bd, g2)"
    by fastforce
  from assms have
    "bind_result (frames env self sd bd sd bd (logger self @ [Success ''Data Generated!'']))
       (\<lambda>st. Inr (finish env self st, g2)) = Inr (self', g')"
    by (simp add: generate_data_mix_def cl d1 d2 bind_result_def)
  then have "g' = g2 \<and> (\<exists>st. frames env self sd bd sd bd (logger self @ [Success ''Data Generated!'']) = Inr st
      \<and> self' = finish env self st)"
    by (auto simp: bind_result_def split: sum.splits)
  then show ?thesis
    using sb by (simp add: Let_def d1 d2)
qed



text \<open>
  C1, as amended. \<^verbatim>\<open>generate_data\<close> of \<^verbatim>\<open>data_generator_all_systematics.py\<close> calls
  \<^verbatim>\<open>generate_points\<close> four times, each call on the generator state the one before left:
  signal and background for the original set, then signal and background again, with the
  same sizes, for the biased set. \<^verbatim>\<open>generate_data\<close> of \<^verbatim>\<open>data_generator_mix.py\<close> calls it
  twice, and the biased set starts from the very points of the original set.
\<close>

theorem generate_data_draws:
  "(generate_data_all env self g = Inr (self', g') \<longrightarrow>
      (\<exists>signal background.
         signal_distribution self = Some signal \<and> background_distribution self = Some background
       \<and> (let n_s = number_of_signal_events self;
               n_b = number_of_background_events self;
               d = problem_dimension self;
               draw1 = generate_points env signal n_s d g;
               draw2 = generate_points env background n_b d (snd draw1);
               draw3 = generate_points env signal n_s d (snd draw2);
               draw4 = generate_points env background n_b d (snd draw3);
               after_copula = copula env self (fst draw2, fst draw4, logger self @ [Success ''Data Generated!''])
           in g' = snd draw4
            \<and> (\<exists>st. frames env self (fst draw1) (fst after_copula) (fst draw3) (fst (snd after_copula))
                        (snd (snd after_copula)) = Inr st
                    \<and> self' = finish env self st))))
   \<and> (generate_data_mix env self g = Inr (self', g') \<longrightarrow>
      (\<exists>signal background.
         signal_distribution self = Some signal \<and> background_distribution self = Some background
       \<and> (let n_s = number_of_signal_events self;
               n_b = number_of_background_events self;
               d = problem_dimension self;
               draw1 = generate_points env signal n_s d g;
               draw2 = generate_points env background n_b d (snd draw1)
           in g' = snd draw2
            \<and> (\<exists>st. frames env self (fst draw1) (fst draw2) (fst draw1) (fst draw2)
                        (logger self @ [Success ''Data Generated!'']) = Inr st
                    \<and> self' = finish env self st))))"
  using generate_data_all_draws[of env self g self' g'] generate_data_mix_draws[of env self g self' g']
  by blast

lemma generate_data_mix_example:
  "generate_data_mix example_env example_generator_mix 0 =
     Inr (example_generator_mix
            \<lparr>generated_data := Some [[1, 1], [0, 0]], generated_labels := Some [0, 1],
             biased_data := Some [[1, 2], [0, 1]], biased_labels := Some [0, 1],
             logger := logger example_generator @
               [Success ''Data Generated!'', Success ''Translation Systematics Applied!'']\<rparr>, 2)"
  by (simp add: generate_data_mix_def example_env_def example_generator_def example_generator_mix_def
      generate_defs constants_defs Let_def numeral_2_eq_2)

theorem generate_data_draws_witness:
  "generate_data_all example_env example_generator 0 =
     Inr (example_generator
            \<lparr>generated_data := Some [[1, 1], [0, 0]], generated_labels := Some [0, 1],
             biased_data := Some [[3, 4], [2, 3]], biased_labels := Some [0, 1],
             logger := logger example_generator @
               [Success ''Data Generated!'', Success ''Translation Systematics Applied!'']\<rparr>, 4)
   \<and> generate_data_mix example_env example_generator_mix 0 =
     Inr (example_generator_mix
            \<lparr>generated_data := Some [[1, 1], [0, 0]], generated_labels := Some [0, 1],
             biased_data := Some [[1, 2], [0, 1]], biased_labels := Some [0, 1],
             logger := logger example_generator @
               [Success ''Data Generated!'', Success ''Translation Systematics Applied!'']\<rparr>, 2)
   \<and> snd (generate_points example_env (the (background_distribution example_generator)) 1 2
         (snd (generate_points example_env (the (signal_distribution example_generator)) 1 2
           (snd (generate_points example_env (the (background_distribution example_generator)) 1 2
             (snd (generate_points example_env (the (signal_distribution example_generator)) 1 2 0))))))) = 4"
proof -
  note a = generate_data_draws[of example_env example_generator 0 _ 4, THEN conjunct1, rule_format,
      OF generate_data_all_example]
  note b = generate_data_draws[of example_env example_generator_mix 0 _ 2, THEN conjunct2, rule_format,
      OF generate_data_mix_example]
  show ?thesis
    using a b generate_data_all_example generate_data_mix_example
    by (simp add: example_env_def example_generator_def)
qed

text \<open>
  C1 as stated fails in \<^verbatim>\<open>data_generator_mix.py\<close>: with no systematic constructed and a
  sampler that never returns the same points twice, the generator state has advanced by
  two draws only, and the biased points are the original points.
\<close>

theorem generate_data_mix_biased_is_original:
  "generate_data_mix example_env (example_generator_mix\<lparr>systematic_translation := None\<rparr>) 0 =
     Inr (example_generator_mix
            \<lparr>systematic_translation := None,
             generated_data := Some [[1, 1], [0, 0]], generated_labels := Some [0, 1],
             biased_data := Some [[1, 1], [0, 0]], biased_labels := Some [0, 1],
             logger := logger example_generator @ [Success ''Data Generated!'']\<rparr>, 2)"
  by (simp add: generate_data_mix_def example_env_def example_generator_def example_generator_mix_def
      generate_defs constants_defs Let_def numeral_2_eq_2)

section \<open>The copula\<close>


lemma systematics_logs:
  "apply_scaling env self (apply_translation env self (apply_rotation env self (c, d, logs))) =
     (case apply_scaling env self (apply_translation env self (apply_rotation env self (c, d, []))) of
        (c', d', logs') \<Rightarrow> (c', d', logs @ logs'))"
  by (simp add: apply_rotation_def apply_translation_def apply_scaling_def split: option.splits)

lemma apply_box_logs:
  "apply_box env self (a, b, logs @ logs') =
     (case apply_box env self (a, b, logs') of (a', b', logs'') \<Rightarrow> (a', b', logs @ logs''))"
  by (simp add: apply_box_def split: option.splits prod.splits)

lemma frames_logs:
  "frames env self a b c d logs =
     (case frames env self a b c d [] of
        Inl e \<Rightarrow> Inl e
      | Inr (generated_dataframe, biased_dataframe, logs') \<Rightarrow>
          Inr (generated_dataframe, biased_dataframe, logs @ logs'))"
proof -
  obtain c' d' l where st: "apply_scaling env self (apply_translation env self (apply_rotation env self (c, d, []))) = (c', d', l)"
    by (metis prod_cases3)
  have st': "apply_scaling env self (apply_translation env self (apply_rotation env self (c, d, logs))) = (c', d', logs @ l)"
    by (simp add: systematics_logs[of env self c d logs] st)
  show ?thesis
    by (simp add: frames_def st st' bind_result_def apply_box_logs split: sum.splits prod.splits)
qed

lemma stages_apply_copula:
  "apply_rotation env (self\<lparr>apply_copula := v\<rparr>) = apply_rotation env self"
  "apply_translation env (self\<lparr>apply_copula := v\<rparr>) = apply_translation env self"
  "apply_scaling env (self\<lparr>apply_copula := v\<rparr>) = apply_scaling env self"
  "apply_box env (self\<lparr>apply_copula := v\<rparr>) = apply_box env self"
  by (auto simp: fun_eq_iff apply_rotation_def apply_translation_def apply_scaling_def apply_box_def
      split: option.splits)

lemma frames_apply_copula:
  "frames env (self\<lparr>apply_copula := v\<rparr>) a b c d logs = frames env self a b c d logs"
  by (simp add: frames_def stages_apply_copula)

lemma copula_cases:
  "(apply_copula self \<and> alpha self = Some a \<and> beta self = Some b \<and> a \<noteq> 0 \<and> b \<noteq> 0 \<longrightarrow>
      copula env self (background_data, biased_background_data, logs) =
        (map (map (\<lambda>x. gamma_ppf env (norm_cdf env x) a b)) background_data,
         map (map (\<lambda>x. gamma_ppf env (norm_cdf env x) a b)) biased_background_data,
         logs))
   \<and> (apply_copula self
        \<and> (alpha self = None \<or> alpha self = Some 0 \<or> beta self = None \<or> beta self = Some 0) \<longrightarrow>
      copula env self (background_data, biased_background_data, logs) =
        (background_data, biased_background_data,
         logs @ [Warning ''Parameters of Gamma Distribution (alpha, beta) are not valid'']))
   \<and> (\<not> apply_copula self \<longrightarrow>
      copula env self (background_data, biased_background_data, logs) =
        (background_data, biased_background_data, logs))"
  by (auto simp: copula_def truthy_def split: option.splits)

lemma check_loaded_apply_copula:
  "check_loaded (self\<lparr>apply_copula := v\<rparr>) = check_loaded self"
  by (simp add: check_loaded_def split: option.splits)

lemma generate_data_all_copula_skipped:
  assumes "apply_copula self"
    and "alpha self = None \<or> alpha self = Some 0 \<or> beta self = None \<or> beta self = Some 0"
  shows "(\<forall>e. generate_data_all env self g = Inl e
              \<longleftrightarrow> generate_data_all env (self\<lparr>apply_copula := False\<rparr>) g = Inl e)
       \<and> (\<forall>self1 g1. generate_data_all env self g = Inr (self1, g1) \<longrightarrow>
            Warning ''Parameters of Gamma Distribution (alpha, beta) are not valid'' \<in> set (logger self1)
          \<and> (\<exists>self2. generate_data_all env (self\<lparr>apply_copula := False\<rparr>) g = Inr (self2, g1)
                \<and> generated_data self1 = generated_data self2
                \<and> generated_labels self1 = generated_labels self2
                \<and> biased_data self1 = biased_data self2
                \<and> biased_labels self1 = biased_labels self2))"
proof (cases "check_loaded self")
  case (Inl e)
  then show ?thesis
    by (simp add: generate_data_all_def bind_result_def check_loaded_apply_copula)
next
  case (Inr sb)
  obtain signal background where sb: "sb = (signal, background)" by (cases sb) auto
  obtain sd g1 where d1:
    "generate_points env signal (number_of_signal_events self) (problem_dimension self) g = (sd, g1)"
    by fastforce
  obtain bd g2 where d2:
    "generate_points env background (number_of_background_events self) (problem_dimension self) g1 = (bd, g2)"
    by fastforce
  obtain bsd g3 where d3:
    "generate_points env signal (number_of_signal_events self) (problem_dimension self) g2 = (bsd, g3)"
    by fastforce
  obtain bbd g4 where d4:
    "generate_points env background (number_of_background_events self) (problem_dimension self) g3 = (bbd, g4)"
    by fastforce
  let ?L = "logger self @ [Success ''Data Generated!'']"
  let ?W = "Warning ''Parameters of Gamma Distribution (alpha, beta) are not valid''"
  let ?LW = "logger self @ [Success ''Data Generated!'', ?W]"
  have c1: "copula env self (bd, bbd, ?L) = (bd, bbd, ?LW)"
    using assms copula_cases[of self _ _ env bd bbd ?L] by auto
  have c2: "copula env (self\<lparr>apply_copula := False\<rparr>) (bd, bbd, ?L) = (bd, bbd, ?L)"
    by (simp add: copula_def)
  have r1: "generate_data_all env self g =
      bind_result (frames env self sd bd bsd bbd ?LW) (\<lambda>st. Inr (finish env self st, g4))"
    using Inr sb by (simp add: generate_data_all_def bind_result_def d1 d2 d3 d4 c1)
  have r2: "generate_data_all env (self\<lparr>apply_copula := False\<rparr>) g =
      bind_result (frames env self sd bd bsd bbd ?L)
        (\<lambda>st. Inr (finish env (self\<lparr>apply_copula := False\<rparr>) st, g4))"
    using Inr sb c2
    by (simp add: generate_data_all_def bind_result_def check_loaded_apply_copula d1 d2 d3 d4
        frames_apply_copula)
  show ?thesis
  proof (cases "frames env self sd bd bsd bbd []")
    case (Inl e)
    then show ?thesis
      using frames_logs[of env self sd bd bsd bbd ?LW] frames_logs[of env self sd bd bsd bbd ?L]
      by (simp add: r1 r2 bind_result_def)
  next
    case (Inr st)
    obtain f1 f2 l where st: "st = (f1, f2, l)" by (cases st) auto
    have a: "frames env self sd bd bsd bbd ?LW = Inr (f1, f2, ?LW @ l)"
      using frames_logs[of env self sd bd bsd bbd ?LW] Inr st by simp
    have b: "frames env self sd bd bsd bbd ?L = Inr (f1, f2, ?L @ l)"
      using frames_logs[of env self sd bd bsd bbd ?L] Inr st by simp
    show ?thesis
      by (simp add: r1 r2 a b bind_result_def finish_def)
  qed
qed


text \<open>
  C6, as amended. With \<^verbatim>\<open>apply_copula\<close> set, \<^verbatim>\<open>generate_data\<close> remaps every coordinate of
  both background point sets through the normal CDF and the Gamma inverse CDF when
  \<open>alpha\<close> and \<open>beta\<close> are both set and both different from zero. When one of them is
  unset or zero it logs the warning and leaves both point sets as they are; the run then
  ends as it does with \<^verbatim>\<open>apply_copula\<close> off: the same error, or the same generator state
  and the same data and labels. Without \<^verbatim>\<open>apply_copula\<close> nothing is changed or logged.
\<close>

theorem copula_needs_nonzero_parameters:
  "(apply_copula self \<and> alpha self = Some a \<and> beta self = Some b \<and> a \<noteq> 0 \<and> b \<noteq> 0 \<longrightarrow>
      copula env self (background_data, biased_background_data, logs) =
        (map (map (\<lambda>x. gamma_ppf env (norm_cdf env x) a b)) background_data,
         map (map (\<lambda>x. gamma_ppf env (norm_cdf env x) a b)) biased_background_data,
         logs))
   \<and> (apply_copula self
        \<and> (alpha self = None \<or> alpha self = Some 0 \<or> beta self = None \<or> beta self = Some 0) \<longrightarrow>
      copula env self (background_data, biased_background_data, logs) =
        (background_data, biased_background_data,
         logs @ [Warning ''Parameters of Gamma Distribution (alpha, beta) are not valid''])
      \<and> (\<forall>e. generate_data_all env self g = Inl e
              \<longleftrightarrow> generate_data_all env (self\<lparr>apply_copula := False\<rparr>) g = Inl e)
      \<and> (\<forall>self1 g1. generate_data_all env self g = Inr (self1, g1) \<longrightarrow>
            Warning ''Parameters of Gamma Distribution (alpha, beta) are not valid'' \<in> set (logger self1)
          \<and> (\<exists>self2. generate_data_all env (self\<lparr>apply_copula := False\<rparr>) g = Inr (self2, g1)
                \<and> generated_data self1 = generated_data self2
                \<and> generated_labels self1 = generated_labels self2
                \<and> biased_data self1 = biased_data self2
                \<and> biased_labels self1 = biased_labels self2)))
   \<and> (\<not> apply_copula self \<longrightarrow>
      copula env self (background_data, biased_background_data, logs) =
        (background_data, biased_background_data, logs))"
  using copula_cases[of self a b env background_data biased_background_data logs]
    generate_data_all_copula_skipped[of self env g]
  by blast

theorem copula_needs_nonzero_parameters_witness:
  "apply_copula (example_generator_copula\<lparr>beta := Some 3\<rparr>)
   \<and> alpha (example_generator_copula\<lparr>beta := Some 3\<rparr>) = Some 2
   \<and> beta (example_generator_copula\<lparr>beta := Some 3\<rparr>) = Some 3
   \<and> copula example_env (example_generator_copula\<lparr>beta := Some 3\<rparr>) ([[1, 1]], [[3, 3]], [])
       = ([[11 / 2, 11 / 2]], [[13 / 2, 13 / 2]], [])
   \<and> apply_copula (example_generator_copula\<lparr>alpha := None\<rparr>)
   \<and> alpha (example_generator_copula\<lparr>alpha := None\<rparr>) = None
   \<and> copula example_env (example_generator_copula\<lparr>alpha := None\<rparr>) ([[1, 1]], [[3, 3]], [])
       = ([[1, 1]], [[3, 3]], [Warning ''Parameters of Gamma Distribution (alpha, beta) are not valid''])
   \<and> \<not> apply_copula example_generator
   \<and> copula example_env example_generator ([[1, 1]], [[3, 3]], []) = ([[1, 1]], [[3, 3]], [])"
proof -
  have h: "apply_copula (example_generator_copula\<lparr>beta := Some 3\<rparr>)"
    "alpha (example_generator_copula\<lparr>beta := Some 3\<rparr>) = Some 2"
    "beta (example_generator_copula\<lparr>beta := Some 3\<rparr>) = Some 3"
    "apply_copula (example_generator_copula\<lparr>alpha := None\<rparr>)"
    "alpha (example_generator_copula\<lparr>alpha := None\<rparr>) = None"
    "\<not> apply_copula example_generator"
    by (simp_all add: example_generator_copula_def example_generator_def)
  note t1 = copula_needs_nonzero_parameters[of "example_generator_copula\<lparr>beta := Some 3\<rparr>" 2 3
      example_env "[[1, 1]]" "[[3, 3]]" "[]" 0, THEN conjunct1]
  note t2 = copula_needs_nonzero_parameters[of "example_generator_copula\<lparr>alpha := None\<rparr>" 2 3
      example_env "[[1, 1]]" "[[3, 3]]" "[]" 0, THEN conjunct2, THEN conjunct1]
  note t3 = copula_needs_nonzero_parameters[of example_generator 2 3
      example_env "[[1, 1]]" "[[3, 3]]" "[]" 0, THEN conjunct2, THEN conjunct2]
  have e: "gamma_ppf example_env (norm_cdf example_env 1) 2 3 = 11 / 2"
    "gamma_ppf example_env (norm_cdf example_env 3) 2 3 = 13 / 2"
    by (simp_all add: example_env_def)
  show ?thesis
    using t1 t2 t3 h e by simp
qed

text \<open>
  C6 as stated fails: with \<open>alpha = 2\<close> and \<open>beta = 0\<close> both parameters are set, and yet
  the background is not remapped and the warning is logged.
\<close>

theorem copula_skipped_with_zero_beta:
  "apply_copula example_generator_copula
   \<and> alpha example_generator_copula = Some 2 \<and> beta example_generator_copula = Some 0
   \<and> copula example_env example_generator_copula ([[1, 1]], [[3, 3]], [])
       = ([[1, 1]], [[3, 3]], [Warning ''Parameters of Gamma Distribution (alpha, beta) are not valid''])
   \<and> gamma_ppf example_env (norm_cdf example_env 1) 2 0 = 5 / 2
   \<and> gamma_ppf example_env (norm_cdf example_env 3) 2 0 = 7 / 2"
  by (simp add: example_generator_copula_def example_generator_def copula_def truthy_def example_env_def)

section \<open>A signal distribution that cannot be built\<close>

text \<open>
  C7 fails for the signal: from settings whose signal distribution is named Gamma the
  constructor of \<^verbatim>\<open>data_generator_all_systematics.py\<close> logs the error and goes on, loads
  the systematics and returns a generator without a signal distribution; only
  \<^verbatim>\<open>generate_data\<close> exits. For a background distribution named Poisson the constructor
  exits.
\<close>

theorem init_all_signal_not_fatal:
  "init_all example_settings_gamma_signal = Inr example_generator_no_signal
   \<and> signal_distribution example_generator_no_signal = None
   \<and> systematics_loaded example_generator_no_signal
   \<and> systematic_translation example_generator_no_signal \<noteq> None
   \<and> generate_data_all example_env example_generator_no_signal 0 = Inl Exit
   \<and> init_all (example_settings
        \<lparr>cfg_background_distribution :=
           Some \<lparr>d_name = ''Poisson'', d_mu = None, d_sigma = None, d_k = None, d_theta = None\<rparr>\<rparr>)
       = Inl Exit"
  by (simp add: init_all_def example_settings_gamma_signal_def example_generator_no_signal_def
      example_settings_def example_systematic_def example_generator_def
      load_background_all_def load_signal_all_def load_defs constants_defs np_add_def z_all_def
      radians_def example_counts generate_data_all_def check_loaded_def)


section \<open>The translation vector\<close>

lemma load_systematic_translation:
  assumes "s_name systematic = SYSTEMATIC_TRANSLATION"
    and "s_z_magnitude systematic = Some z_magnitude" and "s_alpha systematic = Some a"
  shows "load_systematic z center systematic self =
     Inr (self\<lparr>systematic_translation :=
                 Some \<lparr>t_name = SYSTEMATIC_TRANSLATION, t_allowed_dimension = - 1,
                       translation_vector = z z_magnitude a\<rparr>\<rparr>)"
  using assms by (simp add: load_defs constants_defs)

lemma load_systematic_scaling:
  assumes "s_name systematic = SYSTEMATIC_SCALING" and "s_scaling_factor systematic = Some f"
  shows "load_systematic z center systematic self =
     Inr (if f > 1
          then self\<lparr>systematic_scaling :=
                      Some \<lparr>sc_name = SYSTEMATIC_SCALING, sc_allowed_dimension = - 1,
                            scaling_vector = [f, f]\<rparr>\<rparr>
          else self)"
  using assms by (simp add: load_defs constants_defs)

lemma load_systematic_rotation:
  assumes "s_name systematic = SYSTEMATIC_ROTATION" and "s_rotation_degree systematic = Some deg"
  shows "load_systematic z center systematic self =
     Inr (if deg \<noteq> 0
          then self\<lparr>systematic_rotation := Some \<lparr>r_name = SYSTEMATIC_BOX, rotation_degree = deg\<rparr>\<rparr>
          else self)"
  using assms by (simp add: load_defs constants_defs)

lemma load_systematic_box:
  assumes "s_name systematic = SYSTEMATIC_BOX" and "s_box_l systematic = Some l"
  shows "load_systematic z center systematic self =
     Inr (if l > 1
          then self\<lparr>systematic_box :=
                      Some \<lparr>b_name = SYSTEMATIC_BOX, box_center = center, box_length = l\<rparr>\<rparr>
          else self)"
  using assms by (simp add: load_defs constants_defs)

lemma add_axes_two:
  assumes "2 \<le> length p"
  shows "add_axes [v0, v1] p = (p ! 0 + v0) # (p ! 1 + v1) # drop 2 p"
proof -
  from assms obtain x y rest where "p = x # y # rest"
    by (cases p; cases "tl p") auto
  then show ?thesis by simp
qed

lemma add_axes_zero: "add_axes [0, 0] p = p"
  by (cases p; cases "tl p") auto

lemma sqrt3_bounds: "173 / 100 < sqrt 3" "sqrt 3 < 174 / 100"
proof -
  show "173 / 100 < sqrt 3" by (rule real_less_rsqrt) (simp add: power2_eq_square)
  show "sqrt 3 < 174 / 100" by (rule real_less_lsqrt) (simp_all add: power2_eq_square)
qed

lemma radians_30: "cos (radians 30) = sqrt 3 / 2" "sin (radians 30) = 1 / 2"
  by (simp_all add: radians_def cos_30 sin_30)

lemma py_round_cos_30: "py_round (cos (radians 30)) 2 = 87 / 100"
proof -
  have f: "\<lfloor>50 * sqrt 3\<rfloor> = 86"
    using sqrt3_bounds by (simp add: floor_eq_iff)
  have "round_half_even (50 * sqrt 3) = 87"
    using sqrt3_bounds by (simp add: round_half_even_def f Let_def)
  then show ?thesis
    by (simp add: py_round_def radians_30)
qed

lemma py_round_sin_30: "py_round (sin (radians 30)) 2 = 1 / 2"
  by (simp add: py_round_def radians_30 round_half_even_def)

lemma cos_30_not_rounded: "cos (radians 30) \<noteq> 87 / 100"
  using sqrt3_bounds by (simp add: radians_30)


lemma Translation_apply_systematics_two:
  assumes "translation_vector t = [v0, v1]" and "list_all (\<lambda>p. 2 \<le> length p) points'"
  shows "Translation_apply_systematics t dimension points' =
           map (\<lambda>p. (p ! 0 + v0) # (p ! 1 + v1) # drop 2 p) points'"
  using assms by (simp add: Translation_apply_systematics_def list_all_iff add_axes_two)

text \<open>
  C8, as amended. A descriptor named Translation with \<^verbatim>\<open>z_magnitude\<close> and \<^verbatim>\<open>alpha\<close> makes
  \<^verbatim>\<open>data_generator_all_systematics.py\<close> construct the translation with the vector
  \<open>z_magnitude * (cos alpha, sin alpha)\<close>, \<open>alpha\<close> in degrees, and makes
  \<^verbatim>\<open>data_generator_mix.py\<close> construct it with
  \<open>z_magnitude * (round(cos alpha, 2), round(sin alpha, 2))\<close>. The vector has two
  components, and applying the translation, as the spec describes it, adds them to the
  first two coordinates of every point and leaves the other coordinates.
\<close>

theorem translation_vector_of_descriptor:
  assumes "s_name systematic = SYSTEMATIC_TRANSLATION"
    and "s_z_magnitude systematic = Some z_magnitude" and "s_alpha systematic = Some a"
  shows "(\<exists>t. load_systematic z_all center systematic self = Inr (self\<lparr>systematic_translation := Some t\<rparr>)
            \<and> translation_vector t = [cos (radians a) * z_magnitude, sin (radians a) * z_magnitude]
            \<and> (\<forall>dimension points'. list_all (\<lambda>p. 2 \<le> length p) points' \<longrightarrow>
                 Translation_apply_systematics t dimension points' =
                   map (\<lambda>p. (p ! 0 + cos (radians a) * z_magnitude)
                             # (p ! 1 + sin (radians a) * z_magnitude) # drop 2 p) points'))
       \<and> (\<exists>t. load_systematic z_mix center systematic self = Inr (self\<lparr>systematic_translation := Some t\<rparr>)
            \<and> translation_vector t =
                [py_round (cos (radians a)) 2 * z_magnitude, py_round (sin (radians a)) 2 * z_magnitude]
            \<and> (\<forall>dimension points'. list_all (\<lambda>p. 2 \<le> length p) points' \<longrightarrow>
                 Translation_apply_systematics t dimension points' =
                   map (\<lambda>p. (p ! 0 + py_round (cos (radians a)) 2 * z_magnitude)
                             # (p ! 1 + py_round (sin (radians a)) 2 * z_magnitude) # drop 2 p) points'))"
proof (intro conjI)
  let ?t = "\<lambda>z. \<lparr>t_name = SYSTEMATIC_TRANSLATION, t_allowed_dimension = - 1,
                  translation_vector = z z_magnitude a\<rparr>"
  show "\<exists>t. load_systematic z_all center systematic self = Inr (self\<lparr>systematic_translation := Some t\<rparr>)
            \<and> translation_vector t = [cos (radians a) * z_magnitude, sin (radians a) * z_magnitude]
            \<and> (\<forall>dimension points'. list_all (\<lambda>p. 2 \<le> length p) points' \<longrightarrow>
                 Translation_apply_systematics t dimension points' =
                   map (\<lambda>p. (p ! 0 + cos (radians a) * z_magnitude)
                             # (p ! 1 + sin (radians a) * z_magnitude) # drop 2 p) points')"
    by (rule exI[of _ "?t z_all"])
      (simp add: load_systematic_translation[OF assms] z_all_def Translation_apply_systematics_two)
  show "\<exists>t. load_systematic z_mix center systematic self = Inr (self\<lparr>systematic_translation := Some t\<rparr>)
            \<and> translation_vector t =
                [py_round (cos (radians a)) 2 * z_magnitude, py_round (sin (radians a)) 2 * z_magnitude]
            \<and> (\<forall>dimension points'. list_all (\<lambda>p. 2 \<le> length p) points' \<longrightarrow>
                 Translation_apply_systematics t dimension points' =
                   map (\<lambda>p. (p ! 0 + py_round (cos (radians a)) 2 * z_magnitude)
                             # (p ! 1 + py_round (sin (radians a)) 2 * z_magnitude) # drop 2 p) points')"
    by (rule exI[of _ "?t z_mix"])
      (simp add: load_systematic_translation[OF assms] z_mix_def Translation_apply_systematics_two)
qed



theorem translation_vector_of_descriptor_witness:
  "s_name example_systematic = SYSTEMATIC_TRANSLATION
   \<and> s_z_magnitude example_systematic = Some 1 \<and> s_alpha example_systematic = Some 90
   \<and> load_systematic z_all [2, 0] example_systematic (example_generator\<lparr>systematic_translation := None\<rparr>)
       = Inr example_generator
   \<and> load_systematic z_mix [2, 0] example_systematic (example_generator\<lparr>systematic_translation := None\<rparr>)
       = Inr example_generator
   \<and> map_option translation_vector (systematic_translation example_generator) = Some [0, 1]
   \<and> list_all (\<lambda>p. 2 \<le> length p) [[2, 2], [3, 3, 3 :: real]]
   \<and> map_option (\<lambda>t. Translation_apply_systematics t 2 [[2, 2], [3, 3, 3]])
        (systematic_translation example_generator) = Some [[2, 3], [3, 4, 3]]"
proof -
  have h: "s_name example_systematic = SYSTEMATIC_TRANSLATION"
    "s_z_magnitude example_systematic = Some 1" "s_alpha example_systematic = Some 90"
    by (simp_all add: example_systematic_def constants_defs)
  have r: "py_round 0 2 = 0" "py_round 1 2 = 1"
    by (simp_all add: py_round_def round_half_even_def)
  have l1: "load_systematic z_all [2, 0] example_systematic (example_generator\<lparr>systematic_translation := None\<rparr>)
       = Inr example_generator"
    by (simp add: load_systematic_translation[OF h] example_generator_def z_all_def radians_def
        constants_defs)
  have l2: "load_systematic z_mix [2, 0] example_systematic (example_generator\<lparr>systematic_translation := None\<rparr>)
       = Inr example_generator"
    by (simp add: load_systematic_translation[OF h] example_generator_def z_mix_def radians_def
        constants_defs r)
  have v: "map_option translation_vector (systematic_translation example_generator) = Some [0, 1]"
    "map_option (\<lambda>t. Translation_apply_systematics t 2 [[2, 2], [3, 3, 3]])
        (systematic_translation example_generator) = Some [[2, 3], [3, 4, 3]]"
    by (simp_all add: example_generator_def Translation_apply_systematics_def)
  note translation_vector_of_descriptor[OF h, of "[2, 0]" "example_generator\<lparr>systematic_translation := None\<rparr>"]
  then show ?thesis
    using h l1 l2 v by simp
qed

text \<open>
  C8 as stated fails in \<^verbatim>\<open>data_generator_mix.py\<close>: for \<open>z_magnitude = 1\<close> and
  \<open>alpha = 30\<close> the vector is \<open>(0.87, 0.5)\<close>, and \<open>cos 30\<close> is not \<open>0.87\<close>.
\<close>

theorem translation_vector_mix_rounded:
  "init_mix (example_settings\<lparr>cfg_systematics := Some [example_systematic\<lparr>s_alpha := Some 30\<rparr>]\<rparr>)
     = Inr (example_generator_mix
              \<lparr>systematic_translation :=
                 Some \<lparr>t_name = ''Translation'', t_allowed_dimension = - 1,
                       translation_vector = [87 / 100, 1 / 2]\<rparr>\<rparr>)
   \<and> [87 / 100, 1 / 2] \<noteq> [cos (radians 30) * 1, sin (radians 30) * 1]"
proof -
  have "init_mix (example_settings\<lparr>cfg_systematics := Some [example_systematic\<lparr>s_alpha := Some 30\<rparr>]\<rparr>)
     = Inr (example_generator_mix
              \<lparr>systematic_translation :=
                 Some \<lparr>t_name = ''Translation'', t_allowed_dimension = - 1,
                       translation_vector = [87 / 100, 1 / 2]\<rparr>\<rparr>)"
    by (simp add: init_mix_def example_settings_def example_systematic_def example_generator_def
      example_generator_mix_def load_defs constants_defs np_add_def z_mix_def
      example_counts py_round_cos_30 py_round_sin_30)
      (simp add: radians_def)
  then show ?thesis
    using cos_30_not_rounded by simp
qed

section \<open>Thresholds of the systematics\<close>

lemma Translation_apply_systematics_zero:
  assumes "translation_vector t = [0, 0]"
  shows "Translation_apply_systematics t dimension points' = points'"
proof -
  have "add_axes [0, 0] = (\<lambda>p. p)" by (rule ext) (rule add_axes_zero)
  then show ?thesis by (simp add: Translation_apply_systematics_def assms)
qed

text \<open>
  C10. A descriptor named Translation with \<^verbatim>\<open>z_magnitude\<close> and \<^verbatim>\<open>alpha\<close> makes either
  generator construct the translation, whatever \<^verbatim>\<open>z_magnitude\<close> is; for \<^verbatim>\<open>z_magnitude\<close> 0
  the vector is zero, and applying the translation, as the spec describes it, returns the
  points it was given. Scaling is constructed when \<^verbatim>\<open>scaling_factor > 1\<close> and otherwise the
  generator is left as it was; likewise Rotation when \<^verbatim>\<open>rotation_degree != 0\<close> and Box
  when \<^verbatim>\<open>box_l > 1\<close>.
\<close>

theorem translation_has_no_threshold:
  assumes "s_name systematic = SYSTEMATIC_TRANSLATION"
    and "s_z_magnitude systematic = Some z_magnitude" and "s_alpha systematic = Some a"
  shows "(\<exists>t. load_systematic z_all center systematic self = Inr (self\<lparr>systematic_translation := Some t\<rparr>)
            \<and> (z_magnitude = 0 \<longrightarrow>
                 translation_vector t = [0, 0]
               \<and> (\<forall>dimension points'. Translation_apply_systematics t dimension points' = points')))
       \<and> (\<exists>t. load_systematic z_mix center systematic self = Inr (self\<lparr>systematic_translation := Some t\<rparr>)
            \<and> (z_magnitude = 0 \<longrightarrow>
                 translation_vector t = [0, 0]
               \<and> (\<forall>dimension points'. Translation_apply_systematics t dimension points' = points')))
       \<and> (s_name sc = SYSTEMATIC_SCALING \<and> s_scaling_factor sc = Some f \<longrightarrow>
            load_systematic z center sc self =
              Inr (if f > 1
                   then self\<lparr>systematic_scaling :=
                               Some \<lparr>sc_name = SYSTEMATIC_SCALING, sc_allowed_dimension = - 1,
                                     scaling_vector = [f, f]\<rparr>\<rparr>
                   else self))
       \<and> (s_name ro = SYSTEMATIC_ROTATION \<and> s_rotation_degree ro = Some deg \<longrightarrow>
            load_systematic z center ro self =
              Inr (if deg \<noteq> 0
                   then self\<lparr>systematic_rotation := Some \<lparr>r_name = SYSTEMATIC_BOX, rotation_degree = deg\<rparr>\<rparr>
                   else self))
       \<and> (s_name bx = SYSTEMATIC_BOX \<and> s_box_l bx = Some l \<longrightarrow>
            load_systematic z center bx self =
              Inr (if l > 1
                   then self\<lparr>systematic_box :=
                               Some \<lparr>b_name = SYSTEMATIC_BOX, box_center = center, box_length = l\<rparr>\<rparr>
                   else self))"
proof (intro conjI impI)
  let ?t = "\<lambda>z. \<lparr>t_name = SYSTEMATIC_TRANSLATION, t_allowed_dimension = - 1,
                  translation_vector = z z_magnitude a\<rparr>"
  show "\<exists>t. load_systematic z_all center systematic self = Inr (self\<lparr>systematic_translation := Some t\<rparr>)
            \<and> (z_magnitude = 0 \<longrightarrow>
                 translation_vector t = [0, 0]
               \<and> (\<forall>dimension points'. Translation_apply_systematics t dimension points' = points'))"
    by (rule exI[of _ "?t z_all"])
      (simp add: load_systematic_translation[OF assms] z_all_def Translation_apply_systematics_zero)
  show "\<exists>t. load_systematic z_mix center systematic self = Inr (self\<lparr>systematic_translation := Some t\<rparr>)
            \<and> (z_magnitude = 0 \<longrightarrow>
                 translation_vector t = [0, 0]
               \<and> (\<forall>dimension points'. Translation_apply_systematics t dimension points' = points'))"
    by (rule exI[of _ "?t z_mix"])
      (simp add: load_systematic_translation[OF assms] z_mix_def Translation_apply_systematics_zero)
next
  assume "s_name sc = SYSTEMATIC_SCALING \<and> s_scaling_factor sc = Some f"
  then show "load_systematic z center sc self =
              Inr (if f > 1
                   then self\<lparr>systematic_scaling :=
                               Some \<lparr>sc_name = SYSTEMATIC_SCALING, sc_allowed_dimension = - 1,
                                     scaling_vector = [f, f]\<rparr>\<rparr>
                   else self)"
    using load_systematic_scaling by blast
next
  assume "s_name ro = SYSTEMATIC_ROTATION \<and> s_rotation_degree ro = Some deg"
  then show "load_systematic z center ro self =
              Inr (if deg \<noteq> 0
                   then self\<lparr>systematic_rotation := Some \<lparr>r_name = SYSTEMATIC_BOX, rotation_degree = deg\<rparr>\<rparr>
                   else self)"
    using load_systematic_rotation by blast
next
  assume "s_name bx = SYSTEMATIC_BOX \<and> s_box_l bx = Some l"
  then show "load_systematic z center bx self =
              Inr (if l > 1
                   then self\<lparr>systematic_box :=
                               Some \<lparr>b_name = SYSTEMATIC_BOX, box_center = center, box_length = l\<rparr>\<rparr>
                   else self)"
    using load_systematic_box by blast
qed


theorem translation_has_no_threshold_witness:
  "s_name (example_systematic\<lparr>s_z_magnitude := Some 0\<rparr>) = SYSTEMATIC_TRANSLATION
   \<and> s_z_magnitude (example_systematic\<lparr>s_z_magnitude := Some 0\<rparr>) = Some 0
   \<and> s_alpha (example_systematic\<lparr>s_z_magnitude := Some 0\<rparr>) = Some 90
   \<and> load_systematic z_all [2, 0] (example_systematic\<lparr>s_z_magnitude := Some 0\<rparr>)
         (example_generator\<lparr>systematic_translation := None\<rparr>)
       = Inr (example_generator
                \<lparr>systematic_translation :=
                   Some \<lparr>t_name = ''Translation'', t_allowed_dimension = - 1,
                         translation_vector = [0, 0]\<rparr>\<rparr>)
   \<and> Translation_apply_systematics
         \<lparr>t_name = ''Translation'', t_allowed_dimension = - 1, translation_vector = [0, 0]\<rparr> 2
         [[2, 2], [3, 3]] = [[2, 2], [3, 3]]
   \<and> load_systematic z_mix [2, 0] (example_systematic\<lparr>s_z_magnitude := Some (- 1)\<rparr>)
         (example_generator\<lparr>systematic_translation := None\<rparr>)
       = Inr (example_generator
                \<lparr>systematic_translation :=
                   Some \<lparr>t_name = ''Translation'', t_allowed_dimension = - 1,
                         translation_vector = [0, - 1]\<rparr>\<rparr>)
   \<and> load_systematic z_all [2, 0]
         \<lparr>s_name = ''Scaling'', s_z_magnitude = None, s_alpha = None, s_scaling_factor = Some 1,
          s_box_l = None, s_rotation_degree = None\<rparr> example_generator
       = Inr example_generator
   \<and> load_systematic z_all [2, 0]
         \<lparr>s_name = ''Rotation'', s_z_magnitude = None, s_alpha = None, s_scaling_factor = None,
          s_box_l = None, s_rotation_degree = Some 0\<rparr> example_generator
       = Inr example_generator
   \<and> load_systematic z_all [2, 0]
         \<lparr>s_name = ''Box'', s_z_magnitude = None, s_alpha = None, s_scaling_factor = None,
          s_box_l = Some 1, s_rotation_degree = None\<rparr> example_generator
       = Inr example_generator"
proof -
  have h: "s_name (example_systematic\<lparr>s_z_magnitude := Some 0\<rparr>) = SYSTEMATIC_TRANSLATION"
    "s_z_magnitude (example_systematic\<lparr>s_z_magnitude := Some 0\<rparr>) = Some 0"
    "s_alpha (example_systematic\<lparr>s_z_magnitude := Some 0\<rparr>) = Some 90"
    by (simp_all add: example_systematic_def constants_defs)
  have r: "py_round 0 2 = 0" "py_round 1 2 = 1"
    by (simp_all add: py_round_def round_half_even_def)
  have e: "load_systematic z_all [2, 0] (example_systematic\<lparr>s_z_magnitude := Some 0\<rparr>)
         (example_generator\<lparr>systematic_translation := None\<rparr>)
       = Inr (example_generator
                \<lparr>systematic_translation :=
                   Some \<lparr>t_name = ''Translation'', t_allowed_dimension = - 1,
                         translation_vector = [0, 0]\<rparr>\<rparr>)"
    "Translation_apply_systematics
         \<lparr>t_name = ''Translation'', t_allowed_dimension = - 1, translation_vector = [0, 0]\<rparr> 2
         [[2, 2], [3, 3]] = [[2, 2], [3, 3]]"
    "load_systematic z_mix [2, 0] (example_systematic\<lparr>s_z_magnitude := Some (- 1)\<rparr>)
         (example_generator\<lparr>systematic_translation := None\<rparr>)
       = Inr (example_generator
                \<lparr>systematic_translation :=
                   Some \<lparr>t_name = ''Translation'', t_allowed_dimension = - 1,
                         translation_vector = [0, - 1]\<rparr>\<rparr>)"
    "load_systematic z_all [2, 0]
         \<lparr>s_name = ''Scaling'', s_z_magnitude = None, s_alpha = None, s_scaling_factor = Some 1,
          s_box_l = None, s_rotation_degree = None\<rparr> example_generator
       = Inr example_generator"
    "load_systematic z_all [2, 0]
         \<lparr>s_name = ''Rotation'', s_z_magnitude = None, s_alpha = None, s_scaling_factor = None,
          s_box_l = None, s_rotation_degree = Some 0\<rparr> example_generator
       = Inr example_generator"
    "load_systematic z_all [2, 0]
         \<lparr>s_name = ''Box'', s_z_magnitude = None, s_alpha = None, s_scaling_factor = None,
          s_box_l = Some 1, s_rotation_degree = None\<rparr> example_generator
       = Inr example_generator"
    by (simp_all add: load_defs constants_defs example_systematic_def example_generator_def
        z_all_def z_mix_def radians_def r Translation_apply_systematics_def)
  note translation_has_no_threshold[OF h,
      of "[2, 0]" "example_generator\<lparr>systematic_translation := None\<rparr>"]
  then show ?thesis
    using h e by simp
qed


end
